theory Spec2Isabelle
  imports Main
begin

section \<open>Unit catalog (character.js)\<close>

text \<open>
  The catalog \<open>CharacterType\<close> is an object with one entry per kind; entries are compared
  by identity, so each key is one constructor. The Korean display names are written in
  Latin transliteration.
\<close>

datatype CharacterType =
    GENERAL_5 | GENERAL_4 | GENERAL_3 | GENERAL_2 | GENERAL_1
  | COLONEL | LT_COLONEL | MAJOR | CAPTAIN | FIRST_LT | SECOND_LT
  | MASTER_SGT | SGT | CORPORAL
  | BOMB_1 | BOMB_2 | ENGINEER | WUKONG_1 | WUKONG_2 | FLAG | MP

fun ct_name :: "CharacterType \<Rightarrow> string" where
  "ct_name GENERAL_5 = ''Wonsu''"
| "ct_name GENERAL_4 = ''Daejang''"
| "ct_name GENERAL_3 = ''Jungjang''"
| "ct_name GENERAL_2 = ''Sojang''"
| "ct_name GENERAL_1 = ''Junjang''"
| "ct_name COLONEL = ''Daeryeong''"
| "ct_name LT_COLONEL = ''Jungryeong''"
| "ct_name MAJOR = ''Soryeong''"
| "ct_name CAPTAIN = ''Daewi''"
| "ct_name FIRST_LT = ''Jungwi''"
| "ct_name SECOND_LT = ''Sowi''"
| "ct_name MASTER_SGT = ''Sangsa''"
| "ct_name SGT = ''Jungsa''"
| "ct_name CORPORAL = ''Hasa''"
| "ct_name BOMB_1 = ''Poktan1''"
| "ct_name BOMB_2 = ''Poktan2''"
| "ct_name ENGINEER = ''Gongbyeong''"
| "ct_name WUKONG_1 = ''Sonogong1''"
| "ct_name WUKONG_2 = ''Sonogong2''"
| "ct_name FLAG = ''Gukgi''"
| "ct_name MP = ''Heonbyeong''"

fun ct_priority :: "CharacterType \<Rightarrow> int" where
  "ct_priority GENERAL_5 = 1"
| "ct_priority GENERAL_4 = 2"
| "ct_priority GENERAL_3 = 3"
| "ct_priority GENERAL_2 = 4"
| "ct_priority GENERAL_1 = 5"
| "ct_priority COLONEL = 6"
| "ct_priority LT_COLONEL = 7"
| "ct_priority MAJOR = 8"
| "ct_priority CAPTAIN = 9"
| "ct_priority FIRST_LT = 10"
| "ct_priority SECOND_LT = 11"
| "ct_priority MASTER_SGT = 12"
| "ct_priority SGT = 13"
| "ct_priority CORPORAL = 14"
| "ct_priority BOMB_1 = 0"
| "ct_priority BOMB_2 = 0"
| "ct_priority ENGINEER = 16"
| "ct_priority WUKONG_1 = 17"
| "ct_priority WUKONG_2 = 17"
| "ct_priority FLAG = 19"
| "ct_priority MP = 18"

fun ct_isSpecial :: "CharacterType \<Rightarrow> bool" where
  "ct_isSpecial BOMB_1 = True"
| "ct_isSpecial BOMB_2 = True"
| "ct_isSpecial ENGINEER = True"
| "ct_isSpecial WUKONG_1 = True"
| "ct_isSpecial WUKONG_2 = True"
| "ct_isSpecial FLAG = True"
| "ct_isSpecial MP = True"
| "ct_isSpecial _ = False"

text \<open>The key under which a kind is stored in the catalog (\<open>Object.keys(...).find\<close>).\<close>

fun ct_key :: "CharacterType \<Rightarrow> string" where
  "ct_key GENERAL_5 = ''GENERAL_5''"
| "ct_key GENERAL_4 = ''GENERAL_4''"
| "ct_key GENERAL_3 = ''GENERAL_3''"
| "ct_key GENERAL_2 = ''GENERAL_2''"
| "ct_key GENERAL_1 = ''GENERAL_1''"
| "ct_key COLONEL = ''COLONEL''"
| "ct_key LT_COLONEL = ''LT_COLONEL''"
| "ct_key MAJOR = ''MAJOR''"
| "ct_key CAPTAIN = ''CAPTAIN''"
| "ct_key FIRST_LT = ''FIRST_LT''"
| "ct_key SECOND_LT = ''SECOND_LT''"
| "ct_key MASTER_SGT = ''MASTER_SGT''"
| "ct_key SGT = ''SGT''"
| "ct_key CORPORAL = ''CORPORAL''"
| "ct_key BOMB_1 = ''BOMB_1''"
| "ct_key BOMB_2 = ''BOMB_2''"
| "ct_key ENGINEER = ''ENGINEER''"
| "ct_key WUKONG_1 = ''WUKONG_1''"
| "ct_key WUKONG_2 = ''WUKONG_2''"
| "ct_key FLAG = ''FLAG''"
| "ct_key MP = ''MP''"

section \<open>Units as objects in a store\<close>

text \<open>
  A \<open>Character\<close> is a mutable object: the grid, the team arrays and the battle code hold
  references to it. References are addresses into a store; allocation (\<open>new Character\<close>)
  takes the next free address.
\<close>

record Character =
  type :: CharacterType
  typeName :: string
  playerId :: int
  isAlive :: bool
  isRevealed :: bool

type_synonym addr = nat

record heap =
  objs :: "addr \<Rightarrow> Character"
  next_free :: addr

definition obj :: "heap \<Rightarrow> addr \<Rightarrow> Character" where
  "obj h a = objs h a"

definition alloc :: "heap \<Rightarrow> Character \<Rightarrow> heap \<times> addr" where
  "alloc h c = (h\<lparr>objs := (objs h)(next_free h := c), next_free := Suc (next_free h)\<rparr>, next_free h)"

definition Character_new :: "CharacterType \<Rightarrow> int \<Rightarrow> Character" where
  "Character_new t pid =
     \<lparr>type = t, typeName = ct_key t, playerId = pid, isAlive = True, isRevealed = False\<rparr>"

definition name :: "Character \<Rightarrow> string" where
  "name c = ct_name (type c)"

definition priority :: "Character \<Rightarrow> int" where
  "priority c = ct_priority (type c)"

definition isSpecial :: "Character \<Rightarrow> bool" where
  "isSpecial c = ct_isSpecial (type c)"

definition canMove :: "Character \<Rightarrow> bool" where
  "canMove c = (type c \<noteq> FLAG \<and> type c \<noteq> BOMB_1 \<and> type c \<noteq> BOMB_2)"

definition reveal :: "heap \<Rightarrow> addr \<Rightarrow> heap" where
  "reveal h a = h\<lparr>objs := (objs h)(a := (objs h a)\<lparr>isRevealed := True\<rparr>)\<rparr>"

definition kill :: "heap \<Rightarrow> addr \<Rightarrow> heap" where
  \<comment> \<open>the assignment \<open>x.isAlive = false\<close>\<close>
  "kill h a = h\<lparr>objs := (objs h)(a := (objs h a)\<lparr>isAlive := False\<rparr>)\<rparr>"

definition team_kinds :: "CharacterType list" where
  "team_kinds =
     [GENERAL_5, GENERAL_4, GENERAL_3, GENERAL_2, GENERAL_1, COLONEL, LT_COLONEL, MAJOR,
      CAPTAIN, FIRST_LT, SECOND_LT, MASTER_SGT, SGT, CORPORAL,
      BOMB_1, BOMB_2, ENGINEER, WUKONG_1, WUKONG_2, FLAG, MP]"

fun alloc_all :: "heap \<Rightarrow> Character list \<Rightarrow> heap \<times> addr list" where
  "alloc_all h [] = (h, [])"
| "alloc_all h (c # cs) =
     (case alloc h c of (h1, a) \<Rightarrow> (case alloc_all h1 cs of (h2, as) \<Rightarrow> (h2, a # as)))"

definition createFullTeam :: "heap \<Rightarrow> int \<Rightarrow> heap \<times> addr list" where
  "createFullTeam h pid = alloc_all h (map (\<lambda>t. Character_new t pid) team_kinds)"

section \<open>Battle rules (rules.js)\<close>

record BattleResult =
  attackerSurvives :: bool
  defenderSurvives :: bool
  attackerRevealed :: bool
  defenderRevealed :: bool

text \<open>The constructor's last two parameters default to \<open>true\<close>; no call site passes them.\<close>

definition BattleResult_new :: "bool \<Rightarrow> bool \<Rightarrow> BattleResult" where
  "BattleResult_new a d =
     \<lparr>attackerSurvives = a, defenderSurvives = d, attackerRevealed = True, defenderRevealed = True\<rparr>"

definition bothDie :: "BattleResult \<Rightarrow> bool" where
  "bothDie r = (\<not> attackerSurvives r \<and> \<not> defenderSurvives r)"

definition attackerWins :: "BattleResult \<Rightarrow> bool" where
  "attackerWins r = (attackerSurvives r \<and> \<not> defenderSurvives r)"

definition defenderWins :: "BattleResult \<Rightarrow> bool" where
  "defenderWins r = (\<not> attackerSurvives r \<and> defenderSurvives r)"

definition topRanks :: "CharacterType list" where
  "topRanks = [GENERAL_5, GENERAL_4, GENERAL_3, GENERAL_2, GENERAL_1]"

definition resolveSpecialBattle :: "heap \<Rightarrow> addr \<Rightarrow> addr \<Rightarrow> BattleResult option" where
  "resolveSpecialBattle h attacker defender =
     (let at = type (obj h attacker); dt = type (obj h defender) in
      if dt = FLAG then Some (BattleResult_new True False)
      else if at = ENGINEER \<and> (dt = BOMB_1 \<or> dt = BOMB_2) then Some (BattleResult_new True False)
      else if dt = ENGINEER \<and> (at = BOMB_1 \<or> at = BOMB_2) then Some (BattleResult_new False True)
      else if (at = BOMB_1 \<or> at = BOMB_2) \<and> (dt \<noteq> BOMB_1 \<and> dt \<noteq> BOMB_2 \<and> dt \<noteq> ENGINEER)
        then Some (BattleResult_new True False)
      else if (dt = BOMB_1 \<or> dt = BOMB_2) \<and> (at \<noteq> BOMB_1 \<and> at \<noteq> BOMB_2 \<and> at \<noteq> ENGINEER)
        then Some (BattleResult_new False True)
      else if (at = WUKONG_1 \<or> at = WUKONG_2) \<and> dt \<in> set topRanks
        then Some (BattleResult_new True False)
      else if (dt = WUKONG_1 \<or> dt = WUKONG_2) \<and> at \<in> set topRanks
        then Some (BattleResult_new False True)
      else None)"

definition resolveGeneralBattle :: "heap \<Rightarrow> addr \<Rightarrow> addr \<Rightarrow> BattleResult" where
  "resolveGeneralBattle h attacker defender =
     (let attackerPriority = priority (obj h attacker);
          defenderPriority = priority (obj h defender) in
      if attackerPriority < defenderPriority then BattleResult_new True False
      else if attackerPriority > defenderPriority then BattleResult_new False True
      else BattleResult_new False False)"

text \<open>
  \<open>resolveBattle\<close> calls \<open>reveal()\<close> on a participant when the other one is the military
  police, so it returns the store together with the outcome.
\<close>

definition resolveBattle :: "heap \<Rightarrow> addr \<Rightarrow> addr \<Rightarrow> heap \<times> BattleResult" where
  "resolveBattle h attacker defender =
     (if type (obj h attacker) = MP then
        (let h1 = reveal h defender in (h1, resolveGeneralBattle h1 attacker defender))
      else if type (obj h defender) = MP then
        (let h1 = reveal h attacker in (h1, resolveGeneralBattle h1 attacker defender))
      else (case resolveSpecialBattle h attacker defender of
              Some specialResult \<Rightarrow> (h, specialResult)
            | None \<Rightarrow> (h, resolveGeneralBattle h attacker defender)))"

section \<open>The board (board.js)\<close>

text \<open>
  Reading a property of \<open>null\<close> or \<open>undefined\<close>, or calling a method an object does not
  have, throws.
\<close>

datatype js_error = TypeError

text \<open>
  A position is either an instance of the class \<open>Position\<close> (made by \<open>new Position\<close>) or a
  plain object \<open>{row, col}\<close> (as \<open>MCTSAI.getMove\<close> builds for the move it returns). Both have
  \<open>row\<close> and \<open>col\<close>; only an instance has the method \<open>equals\<close>.
\<close>

datatype PosClass = PositionClass | PlainObject

record Position =
  row :: int
  col :: int
  proto :: PosClass

definition Position_new :: "int \<Rightarrow> int \<Rightarrow> Position" where
  "Position_new r c = \<lparr>row = r, col = c, proto = PositionClass\<rparr>"

definition equals :: "Position \<Rightarrow> Position \<Rightarrow> js_error + bool" where
  \<comment> \<open>the call \<open>p.equals(other)\<close>\<close>
  "equals p other =
     (if proto p = PositionClass then Inr (row p = row other \<and> col p = col other)
      else Inl TypeError)"

record Move =
  fromPos :: Position
  toPos :: Position

definition Move_new :: "Position \<Rightarrow> Position \<Rightarrow> Move" where
  "Move_new f t = \<lparr>fromPos = f, toPos = t\<rparr>"

text \<open>The record stored in \<open>lastBattle\<close>.\<close>

record BattleLog =
  log_attacker :: string
  log_defender :: string
  log_attackerSurvives :: bool
  log_defenderSurvives :: bool
  log_attackerRevealed :: bool
  log_defenderRevealed :: bool

type_synonym grid = "addr option list list"

record GameBoard =
  board :: grid
  aiTeam :: "addr list"
  playerTeam :: "addr list"
  currentPlayer :: int
  gameOver :: bool
  winner :: "int option"
  lastBattle :: "BattleLog option"

definition ROWS :: nat where "ROWS = 9"
definition COLS :: nat where "COLS = 7"

text \<open>
  The constructor builds a 9 x 7 grid of \<open>null\<close> and allocates both teams; no operation
  changes the grid's dimensions.
\<close>

definition GameBoard_new :: "heap \<Rightarrow> heap \<times> GameBoard" where
  "GameBoard_new h =
     (case createFullTeam h 0 of (h1, ai) \<Rightarrow>
      case createFullTeam h1 1 of (h2, pl) \<Rightarrow>
        (h2, \<lparr>board = replicate ROWS (replicate COLS None),
              aiTeam = ai, playerTeam = pl,
              currentPlayer = 1, gameOver = False, winner = None, lastBattle = None\<rparr>))"

text \<open>
  \<open>Math.random()\<close> is a sequence of draws \<open>rnd 0, rnd 1, ...\<close> of natural numbers, read from
  position \<open>k\<close> on; \<open>Math.floor(Math.random() * n)\<close> is the draw modulo \<open>n\<close>.
\<close>

fun shuffle_loop :: "(nat \<Rightarrow> nat) \<Rightarrow> nat \<Rightarrow> nat \<Rightarrow> 'a list \<Rightarrow> 'a list \<times> nat" where
  "shuffle_loop rnd k 0 xs = (xs, k)"
| "shuffle_loop rnd k (Suc i) xs =
     (let j = rnd k mod (Suc i + 1)
      in shuffle_loop rnd (Suc k) i (xs[Suc i := xs ! j, j := xs ! Suc i]))"

definition shuffle :: "(nat \<Rightarrow> nat) \<Rightarrow> nat \<Rightarrow> 'a list \<Rightarrow> 'a list \<times> nat" where
  "shuffle rnd k xs = shuffle_loop rnd k (length xs - 1) xs"

text \<open>
  Reading an array past its end gives \<open>undefined\<close> (\<open>None\<close> below). A grid cell of this model
  is \<open>null\<close> or a unit, so a cell that \<open>setupBoard\<close> would fill with \<open>undefined\<close> cannot be
  stored: \<open>setupBoard\<close> leaves it empty and returns its coordinates in \<open>undefined_cells\<close>.
  A board returned with a non-empty list is outside this model (on such a cell the code's
  later reads throw); the list is empty for every layout that is a permutation of 0..20,
  in particular for the shuffled default.
\<close>

definition js_index :: "'a list \<Rightarrow> nat \<Rightarrow> 'a option" where
  "js_index xs i = (if i < length xs then Some (xs ! i) else None)"

definition home_cells :: "nat \<Rightarrow> (nat \<times> nat) list" where
  "home_cells r0 = concat (map (\<lambda>r. map (\<lambda>c. (r, c)) [0..<COLS]) [r0..<r0 + 3])"

fun assign_cells :: "grid \<Rightarrow> (nat \<times> nat) list \<Rightarrow> nat \<Rightarrow> addr list \<Rightarrow> nat list \<Rightarrow> grid" where
  "assign_cells g [] idx team positions = g"
| "assign_cells g ((r, c) # rest) idx team positions =
     (let cell = (case js_index positions idx of
                    None \<Rightarrow> None
                  | Some charIdx \<Rightarrow> js_index team charIdx)
      in assign_cells (g[r := (g ! r)[c := cell]]) rest (Suc idx) team positions)"

fun undefined_cells :: "(nat \<times> nat) list \<Rightarrow> nat \<Rightarrow> addr list \<Rightarrow> nat list \<Rightarrow> (nat \<times> nat) list" where
  "undefined_cells [] idx team positions = []"
| "undefined_cells ((r, c) # rest) idx team positions =
     (case (case js_index positions idx of
              None \<Rightarrow> None
            | Some charIdx \<Rightarrow> js_index team charIdx) of
        None \<Rightarrow> (r, c) # undefined_cells rest (Suc idx) team positions
      | Some a \<Rightarrow> undefined_cells rest (Suc idx) team positions)"

definition setupBoard ::
  "GameBoard \<Rightarrow> (nat \<Rightarrow> nat) \<Rightarrow> nat \<Rightarrow> nat list option
     \<Rightarrow> GameBoard \<times> nat \<times> (nat \<times> nat) list" where
  "setupBoard b rnd k playerPositions =
     (case shuffle rnd k [0..<21] of (aiPositions, k1) \<Rightarrow>
      let g1 = assign_cells (board b) (home_cells 0) 0 (aiTeam b) aiPositions in
      case (case playerPositions of
              None \<Rightarrow> shuffle rnd k1 [0..<21]
            | Some ps \<Rightarrow> (ps, k1)) of (playerPositions', k2) \<Rightarrow>
      let g2 = assign_cells g1 (home_cells (ROWS - 3)) 0 (playerTeam b) playerPositions'
      in (b\<lparr>board := g2\<rparr>, k2,
          undefined_cells (home_cells 0) 0 (aiTeam b) aiPositions
            @ undefined_cells (home_cells (ROWS - 3)) 0 (playerTeam b) playerPositions'))"

definition isValidPosition :: "Position \<Rightarrow> bool" where
  "isValidPosition pos =
     (row pos \<ge> 0 \<and> row pos < int ROWS \<and> col pos \<ge> 0 \<and> col pos < int COLS)"

definition getCharacter :: "GameBoard \<Rightarrow> Position \<Rightarrow> addr option" where
  "getCharacter b pos =
     (if \<not> isValidPosition pos then None
      else board b ! nat (row pos) ! nat (col pos))"

definition directions :: "(int \<times> int) list" where
  "directions = [(-1, 0), (1, 0), (0, -1), (0, 1)]"

definition getValidMoves :: "heap \<Rightarrow> GameBoard \<Rightarrow> Position \<Rightarrow> Move list" where
  "getValidMoves h b pos =
     (case getCharacter b pos of
        None \<Rightarrow> []
      | Some character \<Rightarrow>
          if \<not> isAlive (obj h character) then []
          else if \<not> canMove (obj h character) then []
          else if playerId (obj h character) \<noteq> currentPlayer b then []
          else concat (map (\<lambda>(dr, dc).
                 let newPos = Position_new (row pos + dr) (col pos + dc) in
                 if \<not> isValidPosition newPos then []
                 else (case getCharacter b newPos of
                         None \<Rightarrow> [Move_new pos newPos]
                       | Some target \<Rightarrow>
                           if playerId (obj h target) \<noteq> playerId (obj h character)
                           then [Move_new pos newPos] else []))
               directions))"

definition set_cell :: "grid \<Rightarrow> Position \<Rightarrow> addr option \<Rightarrow> grid" where
  \<comment> \<open>the assignment \<open>this.board[pos.row][pos.col] = v\<close>\<close>
  "set_cell g pos v = g[nat (row pos) := (g ! nat (row pos))[nat (col pos) := v]]"

text \<open>
  The battle branch of \<open>makeMove\<close>, one binding per statement (store, then board). The
  call \<open>move.fromPos.equals(move.toPos)\<close> throws when \<open>move.fromPos\<close> is a plain object.
\<close>

definition applyBattle ::
  "heap \<Rightarrow> GameBoard \<Rightarrow> Move \<Rightarrow> addr \<Rightarrow> addr \<Rightarrow> js_error + (heap \<times> GameBoard)" where
  "applyBattle h b move character target =
     (case resolveBattle h character target of (h0, battleResult) \<Rightarrow>
      let b0 = b\<lparr>lastBattle := Some
                 \<lparr>log_attacker = name (obj h0 character),
                  log_defender = name (obj h0 target),
                  log_attackerSurvives = attackerSurvives battleResult,
                  log_defenderSurvives = defenderSurvives battleResult,
                  log_attackerRevealed = attackerRevealed battleResult,
                  log_defenderRevealed = defenderRevealed battleResult\<rparr>\<rparr>;
          h1 = (if \<not> attackerSurvives battleResult then kill h0 character else h0);
          b1 = (if \<not> attackerSurvives battleResult
                then b0\<lparr>board := set_cell (board b0) (fromPos move) None\<rparr> else b0);
          h2 = (if \<not> defenderSurvives battleResult then kill h1 target else h1);
          b2 = (if \<not> defenderSurvives battleResult
                then b1\<lparr>board := set_cell (board b1) (toPos move) None\<rparr> else b1)
      in case (if attackerSurvives battleResult
               then (case equals (fromPos move) (toPos move) of
                       Inl e \<Rightarrow> Inl e
                     | Inr same \<Rightarrow>
                         Inr (let b' = b2\<lparr>board := set_cell (board b2) (toPos move) (Some character)\<rparr>
                              in if \<not> same
                                 then b'\<lparr>board := set_cell (board b') (fromPos move) None\<rparr>
                                 else b'))
               else Inr b2) of
           Inl e \<Rightarrow> Inl e
         | Inr b3 \<Rightarrow>
             (let h3 = (if attackerRevealed battleResult then reveal h2 character else h2);
                  h4 = (if defenderRevealed battleResult then reveal h3 target else h3);
                  b4 = (if type (obj h4 target) = FLAG \<and> \<not> isAlive (obj h4 target)
                        then b3\<lparr>gameOver := True, winner := Some (playerId (obj h4 character))\<rparr>
                        else b3)
              in Inr (h4, b4)))"

text \<open>
  \<open>Array.prototype.some\<close>: the first element on which the callback throws ends the call
  with that exception; the callback of \<open>makeMove\<close> is \<open>same_move move\<close>, whose \<open>&&\<close> evaluates
  its second operand only when the first is true.
\<close>

fun js_some :: "('a \<Rightarrow> js_error + bool) \<Rightarrow> 'a list \<Rightarrow> js_error + bool" where
  "js_some p [] = Inr False"
| "js_some p (x # xs) =
     (case p x of
        Inl e \<Rightarrow> Inl e
      | Inr found \<Rightarrow> if found then Inr True else js_some p xs)"

definition same_move :: "Move \<Rightarrow> Move \<Rightarrow> js_error + bool" where
  \<comment> \<open>\<open>m.fromPos.equals(move.fromPos) && m.toPos.equals(move.toPos)\<close>\<close>
  "same_move move m =
     (case equals (fromPos m) (fromPos move) of
        Inl e \<Rightarrow> Inl e
      | Inr eq \<Rightarrow> if eq then equals (toPos m) (toPos move) else Inr False)"

text \<open>
  \<open>makeMove\<close> returns a boolean or throws. Nothing has been mutated when the validity test
  throws.
\<close>

definition makeMove :: "heap \<Rightarrow> GameBoard \<Rightarrow> Move \<Rightarrow> js_error + (bool \<times> heap \<times> GameBoard)" where
  "makeMove h b move =
     (case getCharacter b (fromPos move) of
        None \<Rightarrow> Inr (False, h, b)
      | Some character \<Rightarrow>
          (case js_some (same_move move) (getValidMoves h b (fromPos move)) of
             Inl e \<Rightarrow> Inl e
           | Inr isValid \<Rightarrow>
               if \<not> isValid then Inr (False, h, b)
               else (case (case getCharacter b (toPos move) of
                             None \<Rightarrow>
                               Inr (h, b\<lparr>board := set_cell (set_cell (board b) (toPos move) (Some character))
                                                    (fromPos move) None,
                                       lastBattle := None\<rparr>)
                           | Some target \<Rightarrow> applyBattle h b move character target) of
                       Inl e \<Rightarrow> Inl e
                     | Inr (h', b') \<Rightarrow> Inr (True, h', b'\<lparr>currentPlayer := 1 - currentPlayer b'\<rparr>))))"

definition all_positions :: "Position list" where
  "all_positions =
     concat (map (\<lambda>r. map (\<lambda>c. Position_new (int r) (int c)) [0..<COLS]) [0..<ROWS])"

definition getAllValidMoves :: "heap \<Rightarrow> GameBoard \<Rightarrow> int \<Rightarrow> (Position \<times> Move) list" where
  "getAllValidMoves h b pid =
     concat (map (\<lambda>pos.
        case getCharacter b pos of
          None \<Rightarrow> []
        | Some character \<Rightarrow>
            if isAlive (obj h character) \<and> playerId (obj h character) = pid
            then map (\<lambda>move. (pos, move)) (getValidMoves h b pos)
            else [])
      all_positions)"

text \<open>
  \<open>clone\<close> calls the constructor (which allocates two fresh teams) and then overwrites
  every field: the grid rows and the team arrays are copied element by element, so the
  copies hold the same references as the originals.
\<close>

definition clone :: "heap \<Rightarrow> GameBoard \<Rightarrow> heap \<times> GameBoard" where
  "clone h b =
     (case GameBoard_new h of (h1, newBoard) \<Rightarrow>
        (h1, newBoard\<lparr>board := map (\<lambda>row. map (\<lambda>x. x) row) (board b),
                      aiTeam := map (\<lambda>x. x) (aiTeam b),
                      playerTeam := map (\<lambda>x. x) (playerTeam b),
                      currentPlayer := currentPlayer b,
                      gameOver := gameOver b,
                      winner := winner b,
                      lastBattle := (case lastBattle b of None \<Rightarrow> None | Some l \<Rightarrow> Some l)\<rparr>))"

record CellView =
  cell_name :: string
  cell_type :: string
  player_id :: int
  is_alive :: bool
  is_revealed :: bool
  cell_priority :: "int option"

definition fullView :: "Character \<Rightarrow> CellView" where
  "fullView character =
     \<lparr>cell_name = name character, cell_type = typeName character,
      player_id = playerId character, is_alive = isAlive character,
      is_revealed = isRevealed character, cell_priority = Some (priority character)\<rparr>"

definition hiddenView :: "Character \<Rightarrow> CellView" where
  "hiddenView character =
     \<lparr>cell_name = ''???'', cell_type = ''HIDDEN'',
      player_id = playerId character, is_alive = isAlive character,
      is_revealed = False, cell_priority = None\<rparr>"

definition getBoardState :: "heap \<Rightarrow> GameBoard \<Rightarrow> int \<Rightarrow> CellView option list list" where
  "getBoardState h b forPlayer =
     map (\<lambda>r. map (\<lambda>c.
        case board b ! r ! c of
          None \<Rightarrow> None
        | Some character \<Rightarrow>
            if playerId (obj h character) = forPlayer \<or> isRevealed (obj h character)
            then Some (fullView (obj h character))
            else Some (hiddenView (obj h character)))
      [0..<COLS]) [0..<ROWS]"

definition isGameOver :: "GameBoard \<Rightarrow> bool" where
  "isGameOver b = gameOver b"

definition getWinner :: "GameBoard \<Rightarrow> int option" where
  "getWinner b = winner b"

section \<open>The heuristic agent (basicAI.js)\<close>

text \<open>The agent's helpers read the unit on a listed origin and throw when there is none.\<close>

definition randomChoice :: "(nat \<Rightarrow> nat) \<Rightarrow> nat \<Rightarrow> 'a list \<Rightarrow> 'a option \<times> nat" where
  "randomChoice rnd k array = (js_index array (rnd k mod length array), Suc k)"

definition isFlagTarget :: "heap \<Rightarrow> GameBoard \<Rightarrow> Move \<Rightarrow> bool" where
  \<comment> \<open>\<open>target && target.type === CharacterType.FLAG\<close> for the unit at \<open>move.toPos\<close>\<close>
  "isFlagTarget h b move =
     (case getCharacter b (toPos move) of
        None \<Rightarrow> False
      | Some target \<Rightarrow> type (obj h target) = FLAG)"

definition findFlagCaptureMoves :: "heap \<Rightarrow> GameBoard \<Rightarrow> (Position \<times> Move) list \<Rightarrow> Move list" where
  "findFlagCaptureMoves h b allMoves =
     map snd (filter (\<lambda>(pos, move). isFlagTarget h b move) allMoves)"

record WinningMove =
  wm_move :: Move
  wm_priority :: int

fun findWinningBattles ::
  "heap \<Rightarrow> GameBoard \<Rightarrow> (Position \<times> Move) list \<Rightarrow> js_error + (heap \<times> WinningMove list)" where
  "findWinningBattles h b [] = Inr (h, [])"
| "findWinningBattles h b ((pos, move) # rest) =
     (case getCharacter b (toPos move) of
        None \<Rightarrow> findWinningBattles h b rest
      | Some target \<Rightarrow>
          (case getCharacter b pos of
             None \<Rightarrow> Inl TypeError
           | Some attacker \<Rightarrow>
               (case resolveBattle h attacker target of (h1, result) \<Rightarrow>
                  (case findWinningBattles h1 b rest of
                     Inl e \<Rightarrow> Inl e
                   | Inr (h2, ws) \<Rightarrow>
                       if attackerWins result
                       then Inr (h2, \<lparr>wm_move = move,
                                      wm_priority = (if isRevealed (obj h1 target)
                                                     then priority (obj h1 target) else 10)\<rparr> # ws)
                       else Inr (h2, ws)))))"

text \<open>
  \<open>Array.prototype.sort\<close> with a comparator is a stable sort: \<open>a\<close> stays before \<open>b\<close> unless
  \<open>cmp(a, b) > 0\<close>.
\<close>

fun insert_by :: "('a \<Rightarrow> 'a \<Rightarrow> int) \<Rightarrow> 'a \<Rightarrow> 'a list \<Rightarrow> 'a list" where
  "insert_by cmp x [] = [x]"
| "insert_by cmp x (y # ys) = (if cmp x y \<le> 0 then x # y # ys else y # insert_by cmp x ys)"

definition sort_by :: "('a \<Rightarrow> 'a \<Rightarrow> int) \<Rightarrow> 'a list \<Rightarrow> 'a list" where
  "sort_by cmp xs = foldr (insert_by cmp) xs []"

definition findMyFlag :: "heap \<Rightarrow> GameBoard \<Rightarrow> int \<Rightarrow> Position option" where
  "findMyFlag h b pid =
     find (\<lambda>pos. case getCharacter b pos of
                   None \<Rightarrow> False
                 | Some char \<Rightarrow> playerId (obj h char) = pid \<and> type (obj h char) = FLAG)
          all_positions"

definition isAdjacent :: "Position \<Rightarrow> Position \<Rightarrow> bool" where
  "isAdjacent pos1 pos2 = (\<bar>row pos1 - row pos2\<bar> + \<bar>col pos1 - col pos2\<bar> = 1)"

definition findDefensiveMoves ::
  "heap \<Rightarrow> GameBoard \<Rightarrow> int \<Rightarrow> (Position \<times> Move) list \<Rightarrow> Move list" where
  "findDefensiveMoves h b pid allMoves =
     (case findMyFlag h b pid of
        None \<Rightarrow> []
      | Some flagPos \<Rightarrow>
          map snd (filter (\<lambda>(pos, move). isAdjacent (toPos move) flagPos) allMoves))"

fun findSafeAttacks ::
  "heap \<Rightarrow> GameBoard \<Rightarrow> (Position \<times> Move) list \<Rightarrow> js_error + (heap \<times> Move list)" where
  "findSafeAttacks h b [] = Inr (h, [])"
| "findSafeAttacks h b ((pos, move) # rest) =
     (case getCharacter b (toPos move) of
        None \<Rightarrow> findSafeAttacks h b rest
      | Some target \<Rightarrow>
          (case getCharacter b pos of
             None \<Rightarrow> Inl TypeError
           | Some attacker \<Rightarrow>
               if \<not> isRevealed (obj h target) then
                 (case findSafeAttacks h b rest of
                    Inl e \<Rightarrow> Inl e
                  | Inr (h2, ms) \<Rightarrow>
                      if priority (obj h attacker) \<le> 8 then Inr (h2, move # ms) else Inr (h2, ms))
               else
                 (case resolveBattle h attacker target of (h1, result) \<Rightarrow>
                    (case findSafeAttacks h1 b rest of
                       Inl e \<Rightarrow> Inl e
                     | Inr (h2, ms) \<Rightarrow>
                         if \<not> defenderWins result then Inr (h2, move # ms) else Inr (h2, ms)))))"

definition findForwardMoves :: "GameBoard \<Rightarrow> int \<Rightarrow> (Position \<times> Move) list \<Rightarrow> Move list" where
  "findForwardMoves b pid allMoves =
     (let direction = (if pid = 0 then 1 else -1 :: int) in
      map snd (filter (\<lambda>(pos, move).
         getCharacter b (toPos move) = None
         \<and> (row (toPos move) - row (fromPos move)) * direction > 0) allMoves))"

definition getMove ::
  "heap \<Rightarrow> GameBoard \<Rightarrow> int \<Rightarrow> (nat \<Rightarrow> nat) \<Rightarrow> nat \<Rightarrow> js_error + (heap \<times> Move option \<times> nat)" where
  "getMove h b pid rnd k =
     (let allMoves = getAllValidMoves h b pid in
      if allMoves = [] then Inr (h, None, k)
      else
        let flagCaptureMoves = findFlagCaptureMoves h b allMoves in
        if flagCaptureMoves \<noteq> [] then
          (case randomChoice rnd k flagCaptureMoves of (m, k1) \<Rightarrow> Inr (h, m, k1))
        else
          (case findWinningBattles h b allMoves of
             Inl e \<Rightarrow> Inl e
           | Inr (h1, winningBattles) \<Rightarrow>
               if winningBattles \<noteq> [] then
                 (case sort_by (\<lambda>a b. wm_priority b - wm_priority a) winningBattles of
                    [] \<Rightarrow> Inl TypeError
                  | w # _ \<Rightarrow> Inr (h1, Some (wm_move w), k))
               else
                 let defensiveMoves = findDefensiveMoves h1 b pid allMoves in
                 if defensiveMoves \<noteq> [] then
                   (case randomChoice rnd k defensiveMoves of (m, k1) \<Rightarrow> Inr (h1, m, k1))
                 else
                   (case findSafeAttacks h1 b allMoves of
                      Inl e \<Rightarrow> Inl e
                    | Inr (h2, safeAttacks) \<Rightarrow>
                        if safeAttacks \<noteq> [] then
                          (case randomChoice rnd k safeAttacks of (m, k1) \<Rightarrow> Inr (h2, m, k1))
                        else
                          let forwardMoves = findForwardMoves b pid allMoves in
                          if forwardMoves \<noteq> [] then
                            (case randomChoice rnd k forwardMoves of (m, k1) \<Rightarrow> Inr (h2, m, k1))
                          else
                            (case randomChoice rnd k (map snd allMoves) of
                               (m, k1) \<Rightarrow> Inr (h2, m, k1)))))"

section \<open>Playouts of the search agent (mctsAI.js)\<close>

definition selectSimulationMove ::
  "heap \<Rightarrow> GameBoard \<Rightarrow> (Position \<times> Move) list \<Rightarrow> (nat \<Rightarrow> nat) \<Rightarrow> nat \<Rightarrow> Move option \<times> nat" where
  "selectSimulationMove h b allMoves rnd k =
     (case find (\<lambda>(pos, move). isFlagTarget h b move) allMoves of
        Some (pos, move) \<Rightarrow> (Some move, k)
      | None \<Rightarrow>
          if length allMoves > 0 then randomChoice rnd k (map snd allMoves)
          else (None, k))"

text \<open>
  The playout loop, with the loop variables \<open>simBoard\<close> (and the store it mutates) and
  \<open>moves\<close>; it returns them as they are when the loop ends. An exception of \<open>makeMove\<close>
  leaves the loop and \<open>simulate\<close>.
\<close>

function simulate_loop ::
  "heap \<Rightarrow> GameBoard \<Rightarrow> (nat \<Rightarrow> nat) \<Rightarrow> nat \<Rightarrow> nat \<Rightarrow> nat
     \<Rightarrow> js_error + (heap \<times> GameBoard \<times> nat \<times> nat)" where
  "simulate_loop h simBoard rnd k moves maxMoves =
     (if \<not> isGameOver simBoard \<and> moves < maxMoves then
        (let allMoves = getAllValidMoves h simBoard (currentPlayer simBoard) in
         if length allMoves = 0 then Inr (h, simBoard, k, moves)
         else
           (case selectSimulationMove h simBoard allMoves rnd k of (move, k1) \<Rightarrow>
              (case (case move of
                       None \<Rightarrow> Inr (h, simBoard)
                     | Some m \<Rightarrow>
                         (case makeMove h simBoard m of
                            Inl e \<Rightarrow> Inl e
                          | Inr (ok, h1, simBoard1) \<Rightarrow> Inr (h1, simBoard1))) of
                 Inl e \<Rightarrow> Inl e
               | Inr (h1, simBoard1) \<Rightarrow>
                   simulate_loop h1 simBoard1 rnd k1 (moves + 1) maxMoves)))
      else Inr (h, simBoard, k, moves))"
  by pat_completeness auto
termination
  by (relation "measure (\<lambda>(h, simBoard, rnd, k, moves, maxMoves). maxMoves - moves)") auto

declare simulate_loop.simps [simp del]

text \<open>The value \<open>-1\<close> stands for a draw; a winner of \<open>null\<close> is \<open>None\<close>.\<close>

definition simulate ::
  "heap \<Rightarrow> GameBoard \<Rightarrow> (nat \<Rightarrow> nat) \<Rightarrow> nat \<Rightarrow> nat \<Rightarrow> js_error + (heap \<times> int option \<times> nat)" where
  "simulate h b rnd k maxMoves =
     (case clone h b of (h1, simBoard) \<Rightarrow>
      case simulate_loop h1 simBoard rnd k 0 maxMoves of
        Inl e \<Rightarrow> Inl e
      | Inr (h2, simBoard2, k2, moves) \<Rightarrow>
          Inr (h2, if isGameOver simBoard2 then getWinner simBoard2 else Some (-1), k2))"

section \<open>Notions used in the statements\<close>

definition isBomb :: "CharacterType \<Rightarrow> bool" where
  "isBomb t = (t = BOMB_1 \<or> t = BOMB_2)"

text \<open>
  \<open>listed\<close>: some member of \<open>getValidMoves(m.fromPos)\<close> has the coordinates of \<open>m\<close>.
  \<open>accepted\<close>: moreover \<open>m.fromPos\<close> is a \<open>Position\<close> instance, so that the validity test of
  \<open>makeMove\<close> can be evaluated.
\<close>

definition listed :: "heap \<Rightarrow> GameBoard \<Rightarrow> Move \<Rightarrow> bool" where
  "listed h b m =
     (\<exists>v \<in> set (getValidMoves h b (fromPos m)).
        row (fromPos v) = row (fromPos m) \<and> col (fromPos v) = col (fromPos m)
        \<and> row (toPos v) = row (toPos m) \<and> col (toPos v) = col (toPos m))"

definition accepted :: "heap \<Rightarrow> GameBoard \<Rightarrow> Move \<Rightarrow> bool" where
  "accepted h b m = (proto (fromPos m) = PositionClass \<and> listed h b m)"

text \<open>
  What \<open>makeMove\<close> leaves behind, as a caller sees it: the returned flag with the store and
  the board after the call; a call that throws has returned nothing and changed nothing.
\<close>

definition applied :: "heap \<Rightarrow> GameBoard \<Rightarrow> Move \<Rightarrow> bool \<times> heap \<times> GameBoard" where
  "applied h b m = (case makeMove h b m of Inl e \<Rightarrow> (False, h, b) | Inr r \<Rightarrow> r)"

text \<open>
  The store and board an accepted move produces before the turn passes; \<open>battleEffect\<close> is
  the result of the battle branch when it does not throw.
\<close>

definition battleEffect :: "heap \<Rightarrow> GameBoard \<Rightarrow> Move \<Rightarrow> addr \<Rightarrow> addr \<Rightarrow> heap \<times> GameBoard" where
  "battleEffect h b m a t = projr (applyBattle h b m a t)"

definition moveEffect :: "heap \<Rightarrow> GameBoard \<Rightarrow> Move \<Rightarrow> addr \<Rightarrow> heap \<times> GameBoard" where
  "moveEffect h b m a =
     (case getCharacter b (toPos m) of
        None \<Rightarrow> (h, b\<lparr>board := set_cell (set_cell (board b) (toPos m) (Some a)) (fromPos m) None,
                      lastBattle := None\<rparr>)
      | Some t \<Rightarrow> battleEffect h b m a t)"

text \<open>A sequence of \<open>makeMove\<close> calls on one board, each seen as \<open>applied\<close> sees it.\<close>

fun makeMoves :: "heap \<Rightarrow> GameBoard \<Rightarrow> Move list \<Rightarrow> heap \<times> GameBoard" where
  "makeMoves h b [] = (h, b)"
| "makeMoves h b (m # ms) = (case applied h b m of (ok, h1, b1) \<Rightarrow> makeMoves h1 b1 ms)"

text \<open>
  A move between two \<open>Position\<close> instances, and the same move as the plain object
  \<open>{fromPos: {row, col}, toPos: {row, col}}\<close> that \<open>MCTSAI.getMove\<close> returns.
\<close>

definition mv :: "int \<Rightarrow> int \<Rightarrow> int \<Rightarrow> int \<Rightarrow> Move" where
  "mv r c r' c' = Move_new (Position_new r c) (Position_new r' c')"

definition plain_mv :: "int \<Rightarrow> int \<Rightarrow> int \<Rightarrow> int \<Rightarrow> Move" where
  "plain_mv r c r' c' =
     \<lparr>fromPos = \<lparr>row = r, col = c, proto = PlainObject\<rparr>,
      toPos = \<lparr>row = r', col = c', proto = PlainObject\<rparr>\<rparr>"

text \<open>
  The projection of one cell as the specification words it: empty stays empty, a unit of
  the viewer or a revealed unit shows its full identity, any other unit is a placeholder
  with owner and alive only.
\<close>

definition cellView :: "heap \<Rightarrow> int \<Rightarrow> addr option \<Rightarrow> CellView option" where
  "cellView h forPlayer x =
     (case x of
        None \<Rightarrow> None
      | Some a \<Rightarrow>
          if playerId (obj h a) = forPlayer \<or> isRevealed (obj h a)
          then Some \<lparr>cell_name = ct_name (type (obj h a)), cell_type = typeName (obj h a),
                      player_id = playerId (obj h a), is_alive = isAlive (obj h a),
                      is_revealed = isRevealed (obj h a),
                      cell_priority = Some (ct_priority (type (obj h a)))\<rparr>
          else Some \<lparr>cell_name = ''???'', cell_type = ''HIDDEN'',
                      player_id = playerId (obj h a), is_alive = isAlive (obj h a),
                      is_revealed = False, cell_priority = None\<rparr>)"

text \<open>
  Two cells look the same to viewer \<open>p\<close>: both empty, or both occupied by units with the same
  owner, alive and revealed state, and with the same kind unless the unit is an unrevealed
  unit of the other player.
\<close>

definition same_public :: "int \<Rightarrow> heap \<Rightarrow> addr option \<Rightarrow> heap \<Rightarrow> addr option \<Rightarrow> bool" where
  "same_public p h1 x1 h2 x2 =
     (case x1 of
        None \<Rightarrow> x2 = None
      | Some a1 \<Rightarrow>
          (case x2 of
             None \<Rightarrow> False
           | Some a2 \<Rightarrow>
               playerId (obj h1 a1) = playerId (obj h2 a2)
               \<and> isAlive (obj h1 a1) = isAlive (obj h2 a2)
               \<and> isRevealed (obj h1 a1) = isRevealed (obj h2 a2)
               \<and> (playerId (obj h1 a1) = p \<or> isRevealed (obj h1 a1) \<longrightarrow>
                    type (obj h1 a1) = type (obj h2 a2)
                    \<and> typeName (obj h1 a1) = typeName (obj h2 a2))))"

definition same_public_boards :: "int \<Rightarrow> heap \<Rightarrow> GameBoard \<Rightarrow> heap \<Rightarrow> GameBoard \<Rightarrow> bool" where
  "same_public_boards p h1 b1 h2 b2 =
     list_all (\<lambda>r. list_all (\<lambda>c. same_public p h1 (board b1 ! r ! c) h2 (board b2 ! r ! c))
                      [0..<COLS]) [0..<ROWS]"

text \<open>A move made on a clone of the position \<open>s\<close>.\<close>

definition after_clone_move :: "heap \<times> GameBoard \<Rightarrow> Move \<Rightarrow> bool \<times> heap \<times> GameBoard" where
  "after_clone_move s m = (case clone (fst s) (snd s) of (h1, c) \<Rightarrow> applied h1 c m)"





text \<open>
  The data model of a position: a 9 x 7 grid, every unit on it owned by player 0 or 1, and
  a winner that is none, 0 or 1.
\<close>

definition grid_ok :: "grid \<Rightarrow> bool" where
  "grid_ok g = (length g = ROWS \<and> list_all (\<lambda>row. length row = COLS) g)"

definition units_on :: "grid \<Rightarrow> addr list" where
  "units_on g = concat (map (\<lambda>row. concat (map (\<lambda>x. case x of None \<Rightarrow> [] | Some a \<Rightarrow> [a]) row)) g)"

definition owner_ok :: "heap \<Rightarrow> addr \<Rightarrow> bool" where
  "owner_ok h a = (playerId (obj h a) = 0 \<or> playerId (obj h a) = 1)"

definition owners_ok :: "heap \<Rightarrow> GameBoard \<Rightarrow> bool" where
  "owners_ok h b =
     (grid_ok (board b)
      \<and> list_all (owner_ok h) (units_on (board b))
      \<and> (winner b = None \<or> winner b = Some 0 \<or> winner b = Some 1))"

definition within :: "addr set \<Rightarrow> grid \<Rightarrow> bool" where
  "within U g = (grid_ok g \<and> set (units_on g) \<subseteq> U)"

text \<open>
  \<open>playout_step\<close>: the move the playout loop selects in one iteration.
  \<open>legal_play h b ms\<close>: the moves \<open>ms\<close> are played in turn
  from \<open>b\<close>, each while the game is not over, each a legal move of the side to move, each
  accepted by \<open>makeMove\<close>; the result is the store and board they lead to.
\<close>

definition playout_step :: "heap \<Rightarrow> GameBoard \<Rightarrow> (nat \<Rightarrow> nat) \<Rightarrow> nat \<Rightarrow> Move option \<times> nat" where
  "playout_step h sb rnd k =
     selectSimulationMove h sb (getAllValidMoves h sb (currentPlayer sb)) rnd k"

fun legal_play :: "heap \<Rightarrow> GameBoard \<Rightarrow> Move list \<Rightarrow> (heap \<times> GameBoard) option" where
  "legal_play h b [] = Some (h, b)"
| "legal_play h b (m # ms) =
     (if \<not> gameOver b \<and> m \<in> snd ` set (getAllValidMoves h b (currentPlayer b))
      then (case makeMove h b m of
              Inl e \<Rightarrow> None
            | Inr (ok, h1, b1) \<Rightarrow> if ok then legal_play h1 b1 ms else None)
      else None)"

subsection \<open>Example positions\<close>

text \<open>
  Late-game positions: the board is created by the constructor (units 0..20 belong to
  player 0, units 21..41 to player 1, in catalog order), the listed units stand on the
  listed cells, revealed or not, and every other unit has fallen in an earlier battle.
\<close>

definition heap0 :: heap where
  "heap0 = \<lparr>objs = (\<lambda>a. Character_new CORPORAL 0), next_free = 0\<rparr>"

text \<open>The store right after the constructor: all 42 units alive and unrevealed.\<close>

definition fresh_heap :: heap where
  "fresh_heap = fst (GameBoard_new heap0)"

definition fallen :: "heap \<Rightarrow> addr \<Rightarrow> heap" where
  "fallen h a = reveal (kill h a) a"

definition late_game :: "(int \<times> int \<times> addr \<times> bool) list \<Rightarrow> int \<Rightarrow> heap \<times> GameBoard" where
  "late_game placed turn =
     (case GameBoard_new heap0 of (h, b) \<Rightarrow>
        (foldl (\<lambda>h (r, c, a, rev). if rev then reveal h a else h)
           (foldl fallen h (filter (\<lambda>a. a \<notin> set (map (\<lambda>(r, c, a, rev). a) placed)) [0..<42]))
           placed,
         b\<lparr>board := foldl (\<lambda>g (r, c, a, rev). set_cell g (Position_new r c) (Some a)) (board b) placed,
           currentPlayer := turn\<rparr>))"

text \<open>
  \<open>skirmish a d\<close>: both flags at home, unit \<open>a\<close> of player 1 on (5,3) facing unit \<open>d\<close> of
  player 0 on (4,3), player 1 to move.
\<close>

definition skirmish :: "addr \<Rightarrow> addr \<Rightarrow> heap \<times> GameBoard" where
  "skirmish a d = late_game [(0, 3, 19, False), (8, 3, 40, False), (5, 3, a, False), (4, 3, d, False)] 1"

text \<open>
  \<open>raid\<close>: player 1's captain (unit 29) stands on (1,3) below player 0's flag (unit 19) on
  (0,3); player 0 still has a sergeant (unit 12) on (4,4); player 1 to move.
\<close>

definition raid :: "heap \<times> GameBoard" where
  "raid = late_game [(0, 3, 19, False), (8, 3, 40, False), (1, 3, 29, False), (4, 4, 12, False)] 1"


text \<open>
  \<open>patrol\<close>: player 0's military police (unit 20) on (4,3) above player 1's unrevealed
  corporal (unit 34) on (5,3); player 0 to move.
\<close>

definition patrol :: "heap \<times> GameBoard" where
  "patrol = late_game [(0, 3, 19, False), (8, 3, 40, False), (4, 3, 20, False), (5, 3, 34, False)] 0"

text \<open>
  \<open>stalemate\<close>: player 1 has only its flag left and is to move; player 0 still has a
  colonel (unit 5) on (2,2).
\<close>

definition stalemate :: "heap \<times> GameBoard" where
  "stalemate = late_game [(0, 3, 19, False), (8, 3, 40, False), (2, 2, 5, True)] 1"

text \<open>
  \<open>standoff\<close>: each side has its flag and one unit, far apart: player 1's captain (unit 29)
  on (7,0), player 0's sergeant (unit 12) on (1,6); player 1 to move.
\<close>

definition standoff :: "heap \<times> GameBoard" where
  "standoff = late_game [(0, 3, 19, False), (8, 3, 40, False), (7, 0, 29, True), (1, 6, 12, True)] 1"

definition no_draws :: "nat \<Rightarrow> nat" where
  "no_draws k = 0"

section \<open>Properties\<close>

subsection \<open>Store updates\<close>

lemma obj_reveal:
  "obj (reveal h a) x = (if x = a then (obj h a)\<lparr>isRevealed := True\<rparr> else obj h x)"
  by (simp add: obj_def reveal_def)

lemma obj_kill:
  "obj (kill h a) x = (if x = a then (obj h a)\<lparr>isAlive := False\<rparr> else obj h x)"
  by (simp add: obj_def kill_def)

lemma priority_reveal: "priority (obj (reveal h a) x) = priority (obj h x)"
  by (simp add: obj_reveal priority_def)

subsection \<open>The battle resolver\<close>

lemma fst_resolveBattle:
  "fst (resolveBattle h a d) =
     (if type (obj h a) = MP then reveal h d
      else if type (obj h d) = MP then reveal h a else h)"
  by (simp add: resolveBattle_def Let_def split: option.splits)

lemma resolveGeneralBattle_reveal:
  "resolveGeneralBattle (reveal h x) a d = resolveGeneralBattle h a d"
  by (simp add: resolveGeneralBattle_def priority_reveal)

lemma snd_resolveBattle:
  "snd (resolveBattle h a d) =
     (if type (obj h a) = MP \<or> type (obj h d) = MP then resolveGeneralBattle h a d
      else case resolveSpecialBattle h a d of
             Some r \<Rightarrow> r
           | None \<Rightarrow> resolveGeneralBattle h a d)"
  by (simp add: resolveBattle_def Let_def resolveGeneralBattle_reveal split: option.splits)

text \<open>
  What \<open>resolveBattle\<close> does to the store: when the attacker is the military police it
  sets the defender's \<open>isRevealed\<close>; otherwise, when the defender is the military police,
  it sets the attacker's; otherwise it changes nothing. It never changes \<open>isAlive\<close>, the
  kind or the owner of a unit.
\<close>

lemma resolveBattle_store:
  "fst (resolveBattle h a d) =
     (if type (obj h a) = MP then reveal h d
      else if type (obj h d) = MP then reveal h a else h)
   \<and> isAlive (obj (fst (resolveBattle h a d)) x) = isAlive (obj h x)
   \<and> type (obj (fst (resolveBattle h a d)) x) = type (obj h x)
   \<and> playerId (obj (fst (resolveBattle h a d)) x) = playerId (obj h x)"
  by (simp add: fst_resolveBattle obj_reveal)

text \<open>
  C4 fails on the code: \<open>resolveBattle\<close> is not pure. In \<open>skirmish 41 13\<close> the military
  police (unit 41) faces an unrevealed corporal (unit 13), and the call of \<open>resolveBattle\<close>
  alone, with no move made, leaves the corporal revealed. The heuristic agent calls
  \<open>resolveBattle\<close> on the units of the live board to simulate battles: in \<open>patrol\<close> its
  \<open>getMove\<close> returns the step from (4,3) to (3,3), attacks nothing, and yet player 1's
  hidden corporal (unit 34) on (5,3) is revealed when \<open>getMove\<close> returns.
\<close>

theorem resolveBattle_not_pure:
  "type (obj (fst (skirmish 41 13)) 41) = MP
   \<and> \<not> isRevealed (obj (fst (skirmish 41 13)) 13)
   \<and> isRevealed (obj (fst (resolveBattle (fst (skirmish 41 13)) 41 13)) 13)
   \<and> getCharacter (snd patrol) (Position_new 5 3) = Some 34
   \<and> \<not> isRevealed (obj (fst patrol) 34)
   \<and> \<not> isl (getMove (fst patrol) (snd patrol) 0 no_draws 0)
   \<and> fst (snd (projr (getMove (fst patrol) (snd patrol) 0 no_draws 0))) = Some (mv 4 3 3 3)
   \<and> isRevealed (obj (fst (projr (getMove (fst patrol) (snd patrol) 0 no_draws 0))) 34)"
  by code_simp

text \<open>
  C7: in a battle between a bomb and an engineer the engineer survives and the bomb dies;
  between a bomb and any unit that is neither bomb nor engineer the bomb survives and the
  other dies, whatever the priorities; both hold whichever side attacks.
\<close>

theorem bomb_battles:
  "(isBomb (type (obj h a)) \<and> type (obj h d) = ENGINEER \<longrightarrow>
      \<not> attackerSurvives (snd (resolveBattle h a d)) \<and> defenderSurvives (snd (resolveBattle h a d)))
   \<and> (type (obj h a) = ENGINEER \<and> isBomb (type (obj h d)) \<longrightarrow>
      attackerSurvives (snd (resolveBattle h a d)) \<and> \<not> defenderSurvives (snd (resolveBattle h a d)))
   \<and> (isBomb (type (obj h a)) \<and> \<not> isBomb (type (obj h d)) \<and> type (obj h d) \<noteq> ENGINEER \<longrightarrow>
      attackerSurvives (snd (resolveBattle h a d)) \<and> \<not> defenderSurvives (snd (resolveBattle h a d)))
   \<and> (isBomb (type (obj h d)) \<and> \<not> isBomb (type (obj h a)) \<and> type (obj h a) \<noteq> ENGINEER \<longrightarrow>
      \<not> attackerSurvives (snd (resolveBattle h a d)) \<and> defenderSurvives (snd (resolveBattle h a d)))"
  by (simp add: snd_resolveBattle isBomb_def resolveSpecialBattle_def resolveGeneralBattle_def
      BattleResult_new_def priority_def Let_def)

theorem bomb_battles_witness:
  "(isBomb (type (obj fresh_heap 35)) \<and> type (obj fresh_heap 16) = ENGINEER
      \<and> \<not> attackerSurvives (snd (resolveBattle fresh_heap 35 16))
      \<and> defenderSurvives (snd (resolveBattle fresh_heap 35 16)))
   \<and> (type (obj fresh_heap 37) = ENGINEER \<and> isBomb (type (obj fresh_heap 14))
      \<and> attackerSurvives (snd (resolveBattle fresh_heap 37 14))
      \<and> \<not> defenderSurvives (snd (resolveBattle fresh_heap 37 14)))
   \<and> (isBomb (type (obj fresh_heap 35)) \<and> \<not> isBomb (type (obj fresh_heap 0))
      \<and> type (obj fresh_heap 0) \<noteq> ENGINEER
      \<and> attackerSurvives (snd (resolveBattle fresh_heap 35 0))
      \<and> \<not> defenderSurvives (snd (resolveBattle fresh_heap 35 0)))
   \<and> (isBomb (type (obj fresh_heap 14)) \<and> \<not> isBomb (type (obj fresh_heap 21))
      \<and> type (obj fresh_heap 21) \<noteq> ENGINEER
      \<and> \<not> attackerSurvives (snd (resolveBattle fresh_heap 21 14))
      \<and> defenderSurvives (snd (resolveBattle fresh_heap 21 14)))"
proof -
  have k1: "isBomb (type (obj fresh_heap 35)) \<and> type (obj fresh_heap 16) = ENGINEER"
    by code_simp
  have k2: "type (obj fresh_heap 37) = ENGINEER \<and> isBomb (type (obj fresh_heap 14))"
    by code_simp
  have k3: "isBomb (type (obj fresh_heap 35)) \<and> \<not> isBomb (type (obj fresh_heap 0))
      \<and> type (obj fresh_heap 0) \<noteq> ENGINEER"
    by code_simp
  have k4: "isBomb (type (obj fresh_heap 14)) \<and> \<not> isBomb (type (obj fresh_heap 21))
      \<and> type (obj fresh_heap 21) \<noteq> ENGINEER"
    by code_simp
  from k1 bomb_battles [of fresh_heap 35 16]
  have r1: "\<not> attackerSurvives (snd (resolveBattle fresh_heap 35 16))
      \<and> defenderSurvives (snd (resolveBattle fresh_heap 35 16))"
    by blast
  from k2 bomb_battles [of fresh_heap 37 14]
  have r2: "attackerSurvives (snd (resolveBattle fresh_heap 37 14))
      \<and> \<not> defenderSurvives (snd (resolveBattle fresh_heap 37 14))"
    by blast
  from k3 bomb_battles [of fresh_heap 35 0]
  have r3: "attackerSurvives (snd (resolveBattle fresh_heap 35 0))
      \<and> \<not> defenderSurvives (snd (resolveBattle fresh_heap 35 0))"
    by blast
  from k4 bomb_battles [of fresh_heap 21 14]
  have r4: "\<not> attackerSurvives (snd (resolveBattle fresh_heap 21 14))
      \<and> defenderSurvives (snd (resolveBattle fresh_heap 21 14))"
    by blast
  show ?thesis
    using k1 r1 k2 r2 k3 r3 k4 r4 by simp
qed

subsection \<open>Construction and setup\<close>

lemma setupBoard_fields:
  "currentPlayer (fst (setupBoard b rnd k pp)) = currentPlayer b
   \<and> gameOver (fst (setupBoard b rnd k pp)) = gameOver b
   \<and> winner (fst (setupBoard b rnd k pp)) = winner b
   \<and> lastBattle (fst (setupBoard b rnd k pp)) = lastBattle b"
  by (simp add: setupBoard_def Let_def split: prod.splits option.splits)

lemma GameBoard_new_fields:
  "currentPlayer (snd (GameBoard_new h)) = 1
   \<and> \<not> gameOver (snd (GameBoard_new h))
   \<and> winner (snd (GameBoard_new h)) = None
   \<and> lastBattle (snd (GameBoard_new h)) = None"
  by (simp add: GameBoard_new_def split: prod.splits)

text \<open>
  C10: a board fresh from the constructor has \<open>currentPlayer = 1\<close>, \<open>gameOver = false\<close>,
  \<open>winner = null\<close> and no \<open>lastBattle\<close>, and \<open>setupBoard\<close> changes none of the four, whatever
  the random draws and the optional player layout: player 1 moves first.
\<close>

theorem fresh_board_state:
  "currentPlayer (snd (GameBoard_new h)) = 1
   \<and> \<not> gameOver (snd (GameBoard_new h))
   \<and> winner (snd (GameBoard_new h)) = None
   \<and> lastBattle (snd (GameBoard_new h)) = None
   \<and> currentPlayer (fst (setupBoard (snd (GameBoard_new h)) rnd k pp)) = 1
   \<and> \<not> gameOver (fst (setupBoard (snd (GameBoard_new h)) rnd k pp))
   \<and> winner (fst (setupBoard (snd (GameBoard_new h)) rnd k pp)) = None
   \<and> lastBattle (fst (setupBoard (snd (GameBoard_new h)) rnd k pp)) = None"
  by (simp add: setupBoard_fields GameBoard_new_fields)

subsection \<open>Applying a move\<close>

lemma equals_instance:
  "proto p = PositionClass \<Longrightarrow> equals p q = Inr (row p = row q \<and> col p = col q)"
  by (simp add: equals_def)

lemma equals_plain: "proto p \<noteq> PositionClass \<Longrightarrow> equals p q = Inl TypeError"
  by (simp add: equals_def)

lemma getValidMoves_None: "getCharacter b pos = None \<Longrightarrow> getValidMoves h b pos = []"
  by (simp add: getValidMoves_def)

lemma getValidMoves_shape:
  assumes "v \<in> set (getValidMoves h b pos)"
  shows "fromPos v = pos \<and> proto (toPos v) = PositionClass"
  using assms
  by (auto simp: getValidMoves_def Move_new_def Position_new_def Let_def
      split: option.splits if_splits)

lemma js_some_Inr:
  assumes "\<And>x. x \<in> set xs \<Longrightarrow> p x = Inr (P x)"
  shows "js_some p xs = Inr (\<exists>x \<in> set xs. P x)"
  using assms by (induction xs) auto

lemma js_some_Inl:
  assumes "xs \<noteq> []" "\<And>x. x \<in> set xs \<Longrightarrow> p x = Inl e"
  shows "js_some p xs = Inl e"
  using assms by (cases xs) auto

lemma same_move_instance:
  assumes "proto (fromPos m) = PositionClass" "v \<in> set (getValidMoves h b (fromPos m))"
  shows "same_move m v =
           Inr (row (fromPos v) = row (fromPos m) \<and> col (fromPos v) = col (fromPos m)
                \<and> row (toPos v) = row (toPos m) \<and> col (toPos v) = col (toPos m))"
  using assms getValidMoves_shape[OF assms(2)]
  by (simp add: same_move_def equals_instance)

lemma same_move_plain:
  assumes "proto (fromPos m) \<noteq> PositionClass" "v \<in> set (getValidMoves h b (fromPos m))"
  shows "same_move m v = Inl TypeError"
  using assms getValidMoves_shape[OF assms(2)]
  by (simp add: same_move_def equals_plain)

lemma validity_instance:
  assumes "proto (fromPos m) = PositionClass"
  shows "js_some (same_move m) (getValidMoves h b (fromPos m)) = Inr (listed h b m)"
  unfolding listed_def
  by (rule js_some_Inr) (rule same_move_instance[OF assms])

lemma validity_plain:
  assumes "proto (fromPos m) \<noteq> PositionClass" "getValidMoves h b (fromPos m) \<noteq> []"
  shows "js_some (same_move m) (getValidMoves h b (fromPos m)) = Inl TypeError"
  using assms(2) by (rule js_some_Inl) (rule same_move_plain[OF assms(1)])

lemma case_if_Inr:
  "(case (if c then Inr x else Inr y) of Inl e \<Rightarrow> Inl e | Inr v \<Rightarrow> Inr (f v))
     = Inr (f (if c then x else y))"
  by simp

lemma applyBattle_instance_eq:
  assumes "proto (fromPos move) = PositionClass"
  shows "applyBattle h b move character target =
     Inr (let h0 = fst (resolveBattle h character target);
          battleResult = snd (resolveBattle h character target);
          b0 = b\<lparr>lastBattle := Some
                 \<lparr>log_attacker = name (obj h0 character),
                  log_defender = name (obj h0 target),
                  log_attackerSurvives = attackerSurvives battleResult,
                  log_defenderSurvives = defenderSurvives battleResult,
                  log_attackerRevealed = attackerRevealed battleResult,
                  log_defenderRevealed = defenderRevealed battleResult\<rparr>\<rparr>;
          h1 = (if \<not> attackerSurvives battleResult then kill h0 character else h0);
          b1 = (if \<not> attackerSurvives battleResult
                then b0\<lparr>board := set_cell (board b0) (fromPos move) None\<rparr> else b0);
          h2 = (if \<not> defenderSurvives battleResult then kill h1 target else h1);
          b2 = (if \<not> defenderSurvives battleResult
                then b1\<lparr>board := set_cell (board b1) (toPos move) None\<rparr> else b1);
          b3 = (if attackerSurvives battleResult
                then (let b' = b2\<lparr>board := set_cell (board b2) (toPos move) (Some character)\<rparr>
                      in if \<not> (row (fromPos move) = row (toPos move)
                                \<and> col (fromPos move) = col (toPos move))
                         then b'\<lparr>board := set_cell (board b') (fromPos move) None\<rparr>
                         else b')
                else b2);
          h3 = (if attackerRevealed battleResult then reveal h2 character else h2);
          h4 = (if defenderRevealed battleResult then reveal h3 target else h3);
          b4 = (if type (obj h4 target) = FLAG \<and> \<not> isAlive (obj h4 target)
                then b3\<lparr>gameOver := True, winner := Some (playerId (obj h4 character))\<rparr>
                else b3)
      in (h4, b4))"
  unfolding applyBattle_def equals_instance[OF assms] Let_def case_prod_beta sum.case case_if_Inr
  by (rule refl)

lemma applyBattle_instance:
  assumes "proto (fromPos m) = PositionClass"
  shows "applyBattle h b m a t = Inr (battleEffect h b m a t)"
  by (simp add: battleEffect_def applyBattle_instance_eq[OF assms] del: Let_def)

lemmas battleEffect_eq =
  applyBattle_instance_eq[THEN arg_cong[where f = projr], folded battleEffect_def, unfolded sum.sel]

text \<open>
  \<open>makeMove\<close> on a move whose origin is a \<open>Position\<close> instance never throws: it returns
  true exactly when the move is listed, with the effect \<open>moveEffect\<close> and the turn passed,
  and false with nothing changed otherwise. On a move whose origin is a plain object it
  returns false when \<open>getValidMoves\<close> lists nothing for that origin, and throws otherwise.
\<close>

lemma makeMove_instance:
  assumes "proto (fromPos m) = PositionClass"
  shows "makeMove h b m =
     Inr (case getCharacter b (fromPos m) of
            None \<Rightarrow> (False, h, b)
          | Some a \<Rightarrow>
              if listed h b m
              then (True, fst (moveEffect h b m a),
                    (snd (moveEffect h b m a))\<lparr>currentPlayer := 1 - currentPlayer (snd (moveEffect h b m a))\<rparr>)
              else (False, h, b))"
  by (simp add: makeMove_def validity_instance[OF assms] applyBattle_instance[OF assms]
      moveEffect_def case_prod_beta split: option.splits)

lemma makeMove_plain:
  assumes "proto (fromPos m) \<noteq> PositionClass"
  shows "makeMove h b m =
     (if getValidMoves h b (fromPos m) = [] then Inr (False, h, b) else Inl TypeError)"
proof (cases "getValidMoves h b (fromPos m) = []")
  case True
  then show ?thesis
    by (simp add: makeMove_def split: option.splits)
next
  case False
  then have "getCharacter b (fromPos m) \<noteq> None"
    using getValidMoves_None[of b "fromPos m" h] by blast
  with False validity_plain[OF assms False] show ?thesis
    by (auto simp: makeMove_def)
qed

lemma listed_Some: "listed h b m \<Longrightarrow> \<exists>a. getCharacter b (fromPos m) = Some a"
  by (cases "getCharacter b (fromPos m)") (simp_all add: listed_def getValidMoves_None)

lemma accepted_Some: "accepted h b m \<Longrightarrow> \<exists>a. getCharacter b (fromPos m) = Some a"
  by (auto simp: accepted_def dest: listed_Some)

lemma applied_eq:
  "applied h b m =
     (case getCharacter b (fromPos m) of
        None \<Rightarrow> (False, h, b)
      | Some a \<Rightarrow>
          if accepted h b m
          then (True, fst (moveEffect h b m a),
                (snd (moveEffect h b m a))\<lparr>currentPlayer := 1 - currentPlayer (snd (moveEffect h b m a))\<rparr>)
          else (False, h, b))"
proof (cases "proto (fromPos m) = PositionClass")
  case True
  then show ?thesis
    by (auto simp: applied_def makeMove_instance accepted_def split: option.splits)
next
  case False
  then show ?thesis
    by (simp add: applied_def makeMove_plain accepted_def split: option.splits)
qed

lemma makeMove_accepted_iff:
  "(\<exists>h' b'. makeMove h b m = Inr (True, h', b')) \<longleftrightarrow> accepted h b m"
proof (cases "proto (fromPos m) = PositionClass")
  case True
  then show ?thesis
    using listed_Some[of h b m]
    by (auto simp: makeMove_instance accepted_def split: option.splits)
next
  case False
  then show ?thesis
    by (simp add: makeMove_plain accepted_def)
qed

lemma makeMove_applied:
  "makeMove h b m = Inr r \<Longrightarrow> applied h b m = r"
  by (simp add: applied_def)

lemma applied_accepted: "fst (applied h b m) = accepted h b m"
  using accepted_Some[of h b m] by (auto simp: applied_eq split: option.splits)

lemma applied_rejected: "\<not> accepted h b m \<Longrightarrow> applied h b m = (False, h, b)"
  by (simp add: applied_eq split: option.splits)

lemma accepted_makeMove:
  assumes "accepted h b m"
  shows "makeMove h b m = Inr (applied h b m)"
proof -
  from assms makeMove_accepted_iff[of h b m] obtain h' b' where "makeMove h b m = Inr (True, h', b')"
    by blast
  then show ?thesis
    by (simp add: applied_def)
qed

lemma battleEffect_currentPlayer:
  assumes "proto (fromPos m) = PositionClass"
  shows "currentPlayer (snd (battleEffect h b m a t)) = currentPlayer b"
  by (simp add: battleEffect_eq[OF assms] Let_def)

lemma moveEffect_currentPlayer:
  assumes "proto (fromPos m) = PositionClass"
  shows "currentPlayer (snd (moveEffect h b m a)) = currentPlayer b"
  by (simp add: moveEffect_def battleEffect_currentPlayer[OF assms] split: option.splits)

lemma applied_turn:
  assumes "accepted h b m"
  shows "currentPlayer (snd (snd (applied h b m))) = 1 - currentPlayer b"
  using assms accepted_Some[OF assms]
  by (auto simp: applied_eq moveEffect_currentPlayer accepted_def)

lemma getCharacter_coords:
  "row p = row q \<Longrightarrow> col p = col q \<Longrightarrow> getCharacter b p = getCharacter b q"
  by (simp add: getCharacter_def isValidPosition_def)

lemma getValidMoves_member:
  assumes "v \<in> set (getValidMoves h b pos)" "getCharacter b pos = Some a"
  shows "isAlive (obj h a) \<and> canMove (obj h a)
           \<and> playerId (obj h a) = currentPlayer b \<and> isValidPosition (toPos v)
           \<and> (\<forall>t. getCharacter b (toPos v) = Some t \<longrightarrow> playerId (obj h t) \<noteq> playerId (obj h a))"
  using assms
  by (auto simp: getValidMoves_def Move_new_def Let_def split: option.splits if_splits)

lemma valid_move_target:
  assumes "listed h b m" "getCharacter b (fromPos m) = Some a" "getCharacter b (toPos m) = Some t"
  shows "playerId (obj h t) \<noteq> playerId (obj h a) \<and> canMove (obj h a)"
proof -
  from assms(1) obtain v where v: "v \<in> set (getValidMoves h b (fromPos m))"
    and co: "row (toPos v) = row (toPos m)" "col (toPos v) = col (toPos m)"
    by (auto simp: listed_def)
  from co have "getCharacter b (toPos v) = getCharacter b (toPos m)"
    by (rule getCharacter_coords)
  with getValidMoves_member[OF v assms(2)] assms(3) show ?thesis
    by auto
qed

lemma resolveBattle_flag:
  assumes "type (obj h t) = FLAG" "type (obj h a) \<noteq> FLAG"
  shows "snd (resolveBattle h a t) = BattleResult_new True False"
  using assms
  by (simp add: snd_resolveBattle resolveSpecialBattle_def resolveGeneralBattle_def priority_def Let_def)

lemma battleEffect_flag:
  assumes "proto (fromPos m) = PositionClass"
    and "type (obj h t) = FLAG" "type (obj h a) \<noteq> FLAG" "a \<noteq> t"
  shows "\<not> isAlive (obj (fst (battleEffect h b m a t)) t)
         \<and> gameOver (snd (battleEffect h b m a t))
         \<and> winner (snd (battleEffect h b m a t)) = Some (playerId (obj h a))"
  using assms(2-)
  by (simp add: battleEffect_eq[OF assms(1)] resolveBattle_flag fst_resolveBattle BattleResult_new_def
      obj_reveal obj_kill Let_def)

lemma battleEffect_gameOver:
  assumes "proto (fromPos m) = PositionClass"
  shows "gameOver b \<Longrightarrow> gameOver (snd (battleEffect h b m a t))"
  by (simp add: battleEffect_eq[OF assms] Let_def)

lemma moveEffect_gameOver:
  assumes "proto (fromPos m) = PositionClass"
  shows "gameOver b \<Longrightarrow> gameOver (snd (moveEffect h b m a))"
  by (simp add: moveEffect_def battleEffect_gameOver[OF assms] split: option.splits)

lemma applied_gameOver:
  "gameOver b \<Longrightarrow> gameOver (snd (snd (applied h b m)))"
  by (simp add: applied_eq moveEffect_gameOver accepted_def split: option.splits)

lemma makeMoves_gameOver:
  "gameOver b \<Longrightarrow> gameOver (snd (makeMoves h b ms))"
proof (induction ms arbitrary: h b)
  case Nil
  then show ?case by simp
next
  case (Cons m ms)
  from Cons.prems have "gameOver (snd (snd (applied h b m)))"
    by (rule applied_gameOver)
  then have "gameOver (snd (makeMoves (fst (snd (applied h b m))) (snd (snd (applied h b m))) ms))"
    by (rule Cons.IH)
  then show ?case
    by (simp add: case_prod_beta)
qed

lemma raid_capture_accepted: "fst (applied (fst raid) (snd raid) (mv 1 3 0 3))"
  by code_simp

text \<open>
  C2 fails on the code: \<open>makeMove\<close> compares positions with \<open>m.fromPos.equals(...)\<close>, where
  \<open>m.fromPos\<close> is the very object passed as \<open>move.fromPos\<close>; for a move made of plain
  \<open>{row, col}\<close> objects, the shape \<open>MCTSAI.getMove\<close> returns and \<open>App.jsx\<close> hands to \<open>makeMove\<close>,
  the call throws a \<open>TypeError\<close> instead of returning a boolean. In \<open>raid\<close> the capture
  from (1,3) to (0,3) is a member of \<open>getValidMoves\<close> and is accepted when its positions are
  \<open>Position\<close> instances; the same coordinates as plain objects are listed by
  \<open>getValidMoves\<close> as well, and \<open>makeMove\<close> throws.
\<close>

theorem makeMove_throws_on_plain_move:
  "proto (fromPos (mv 1 3 0 3)) = PositionClass
   \<and> proto (fromPos (plain_mv 1 3 0 3)) = PlainObject
   \<and> mv 1 3 0 3 \<in> set (getValidMoves (fst raid) (snd raid) (fromPos (mv 1 3 0 3)))
   \<and> makeMove (fst raid) (snd raid) (mv 1 3 0 3) = Inr (applied (fst raid) (snd raid) (mv 1 3 0 3))
   \<and> fst (applied (fst raid) (snd raid) (mv 1 3 0 3))
   \<and> listed (fst raid) (snd raid) (plain_mv 1 3 0 3)
   \<and> makeMove (fst raid) (snd raid) (plain_mv 1 3 0 3) = Inl TypeError"
proof -
  have inst: "proto (fromPos (mv 1 3 0 3)) = PositionClass"
    by code_simp
  have plain: "proto (fromPos (plain_mv 1 3 0 3)) = PlainObject"
    by code_simp
  have mem: "mv 1 3 0 3 \<in> set (getValidMoves (fst raid) (snd raid) (fromPos (mv 1 3 0 3)))"
    by code_simp
  have lst: "listed (fst raid) (snd raid) (plain_mv 1 3 0 3)"
    unfolding listed_def by code_simp
  from lst have ne: "getValidMoves (fst raid) (snd raid) (fromPos (plain_mv 1 3 0 3)) \<noteq> []"
    by (auto simp: listed_def)
  from plain have "proto (fromPos (plain_mv 1 3 0 3)) \<noteq> PositionClass"
    by simp
  from makeMove_plain[OF this, of "fst raid" "snd raid"] ne
  have throws: "makeMove (fst raid) (snd raid) (plain_mv 1 3 0 3) = Inl TypeError"
    by simp
  from raid_capture_accepted have "accepted (fst raid) (snd raid) (mv 1 3 0 3)"
    by (simp add: applied_accepted)
  then have "makeMove (fst raid) (snd raid) (mv 1 3 0 3) = Inr (applied (fst raid) (snd raid) (mv 1 3 0 3))"
    by (rule accepted_makeMove)
  with inst plain mem lst throws raid_capture_accepted show ?thesis
    by simp
qed

text \<open>
  C3, as the code has it: a move accepted onto a cell holding a FLAG kills the flag, sets
  \<open>gameOver = true\<close> and \<open>winner\<close> to the owner of the attacking unit, and \<open>gameOver\<close> stays
  true through every later sequence of \<open>makeMove\<close> calls. (The board itself does not
  refuse moves once the game is over; see the example below.)
\<close>

theorem flag_capture_ends_game:
  assumes "makeMove h b m = Inr (True, h', b')"
    and "getCharacter b (fromPos m) = Some a"
    and "getCharacter b (toPos m) = Some t"
    and "type (obj h t) = FLAG"
  shows "\<not> isAlive (obj h' t)
         \<and> gameOver b'
         \<and> winner b' = Some (playerId (obj h a))
         \<and> gameOver (snd (makeMoves h' b' ms))"
proof -
  from assms(1) have acc: "accepted h b m"
    using makeMove_accepted_iff[of h b m] by blast
  then have inst: "proto (fromPos m) = PositionClass" and lst: "listed h b m"
    by (simp_all add: accepted_def)
  from valid_move_target[OF lst assms(2,3)]
  have diff: "a \<noteq> t" and mov: "canMove (obj h a)"
    by auto
  from mov have notflag: "type (obj h a) \<noteq> FLAG"
    by (simp add: canMove_def)
  have eff: "moveEffect h b m a = battleEffect h b m a t"
    using assms(3) by (simp add: moveEffect_def)
  from assms(1) have "applied h b m = (True, h', b')"
    by (rule makeMove_applied)
  then have h': "h' = fst (battleEffect h b m a t)"
    and b': "b' = (snd (battleEffect h b m a t))\<lparr>currentPlayer := 1 - currentPlayer (snd (battleEffect h b m a t))\<rparr>"
    using acc assms(2) eff by (simp_all add: applied_eq)
  from battleEffect_flag[OF inst assms(4) notflag diff, of b]
  have first: "\<not> isAlive (obj h' t) \<and> gameOver b' \<and> winner b' = Some (playerId (obj h a))"
    by (simp add: h' b')
  then have "gameOver b'"
    by simp
  then have "gameOver (snd (makeMoves h' b' ms))"
    by (rule makeMoves_gameOver)
  with first show ?thesis
    by simp
qed

theorem flag_capture_ends_game_witness:
  "makeMove (fst raid) (snd raid) (mv 1 3 0 3) = Inr (applied (fst raid) (snd raid) (mv 1 3 0 3))
   \<and> fst (applied (fst raid) (snd raid) (mv 1 3 0 3))
   \<and> getCharacter (snd raid) (fromPos (mv 1 3 0 3)) = Some 29
   \<and> getCharacter (snd raid) (toPos (mv 1 3 0 3)) = Some 19
   \<and> type (obj (fst raid) 19) = FLAG
   \<and> gameOver (snd (snd (applied (fst raid) (snd raid) (mv 1 3 0 3))))
   \<and> winner (snd (snd (applied (fst raid) (snd raid) (mv 1 3 0 3)))) = Some (playerId (obj (fst raid) 29))"
proof -
  have a2: "getCharacter (snd raid) (fromPos (mv 1 3 0 3)) = Some 29"
    by code_simp
  have a3: "getCharacter (snd raid) (toPos (mv 1 3 0 3)) = Some 19"
    by code_simp
  have a4: "type (obj (fst raid) 19) = FLAG"
    by code_simp
  from raid_capture_accepted have "accepted (fst raid) (snd raid) (mv 1 3 0 3)"
    by (simp add: applied_accepted)
  then have mk: "makeMove (fst raid) (snd raid) (mv 1 3 0 3) = Inr (applied (fst raid) (snd raid) (mv 1 3 0 3))"
    by (rule accepted_makeMove)
  with raid_capture_accepted
  have a1: "makeMove (fst raid) (snd raid) (mv 1 3 0 3)
              = Inr (True, fst (snd (applied (fst raid) (snd raid) (mv 1 3 0 3))),
                     snd (snd (applied (fst raid) (snd raid) (mv 1 3 0 3))))"
    by (simp add: prod_eq_iff)
  from flag_capture_ends_game [OF a1 a2 a3 a4, of "[]"] mk raid_capture_accepted a2 a3 a4
  show ?thesis
    by simp
qed

text \<open>
  C3, as stated, fails: after player 1's captain has taken the flag in \<open>raid\<close> the game is
  over, yet \<open>getValidMoves\<close> still lists moves for player 0's sergeant on (4,4) and
  \<open>makeMove\<close> accepts one.
\<close>

theorem moves_after_game_over:
  "fst (applied (fst raid) (snd raid) (mv 1 3 0 3))
   \<and> gameOver (snd (snd (applied (fst raid) (snd raid) (mv 1 3 0 3))))
   \<and> getValidMoves (fst (snd (applied (fst raid) (snd raid) (mv 1 3 0 3))))
        (snd (snd (applied (fst raid) (snd raid) (mv 1 3 0 3)))) (Position_new 4 4) \<noteq> []
   \<and> fst (applied (fst (snd (applied (fst raid) (snd raid) (mv 1 3 0 3))))
        (snd (snd (applied (fst raid) (snd raid) (mv 1 3 0 3)))) (mv 4 4 3 4))"
  by code_simp

subsection \<open>Reveals and copies\<close>

text \<open>
  C1 fails on the code: \<open>clone\<close> copies the grid rows and team arrays but not the units.
  In \<open>skirmish 26 13\<close> the original board holds the corporal (unit 13) on (4,3), alive and
  unrevealed; after player 1's colonel (unit 26) attacks it on a clone of the board, the
  very unit of the original board is dead and revealed.
\<close>

theorem clone_shares_units:
  "getCharacter (snd (skirmish 26 13)) (Position_new 4 3) = Some 13
   \<and> isAlive (obj (fst (skirmish 26 13)) 13)
   \<and> \<not> isRevealed (obj (fst (skirmish 26 13)) 13)
   \<and> fst (after_clone_move (skirmish 26 13) (mv 5 3 4 3))
   \<and> \<not> isAlive (obj (fst (snd (after_clone_move (skirmish 26 13) (mv 5 3 4 3)))) 13)
   \<and> isRevealed (obj (fst (snd (after_clone_move (skirmish 26 13) (mv 5 3 4 3)))) 13)"
  by code_simp

text \<open>
  C5 fails on the code: the outcome record of every battle carries
  \<open>attackerRevealed = defenderRevealed = true\<close> (the constructor's defaults), so \<open>makeMove\<close>
  reveals the military police as well. In \<open>skirmish 41 13\<close> player 1's military police
  (unit 41), unrevealed, attacks the corporal (unit 13) and ends revealed.
\<close>

theorem military_police_revealed_too:
  "type (obj (fst (skirmish 41 13)) 41) = MP
   \<and> type (obj (fst (skirmish 41 13)) 13) = CORPORAL
   \<and> \<not> isRevealed (obj (fst (skirmish 41 13)) 41)
   \<and> attackerRevealed (snd (resolveBattle (fst (skirmish 41 13)) 41 13))
   \<and> fst (applied (fst (skirmish 41 13)) (snd (skirmish 41 13)) (mv 5 3 4 3))
   \<and> isRevealed (obj (fst (snd (applied (fst (skirmish 41 13)) (snd (skirmish 41 13)) (mv 5 3 4 3)))) 41)"
  by code_simp

subsection \<open>The visibility projection\<close>

lemma getBoardState_cellView:
  "getBoardState h b p = map (\<lambda>r. map (\<lambda>c. cellView h p (board b ! r ! c)) [0..<COLS]) [0..<ROWS]"
  by (simp add: getBoardState_def cellView_def fullView_def hiddenView_def name_def priority_def
      split: option.splits)

lemma getBoardState_nth:
  assumes "r < ROWS" "c < COLS"
  shows "getBoardState h b p ! r ! c = cellView h p (board b ! r ! c)"
  using assms by (simp add: getBoardState_cellView)

lemma same_public_cellView:
  "same_public p h1 x1 h2 x2 \<Longrightarrow> cellView h1 p x1 = cellView h2 p x2"
  by (auto simp: same_public_def cellView_def split: option.splits)

lemma same_public_boards_projection:
  assumes "same_public_boards p h1 b1 h2 b2"
  shows "getBoardState h1 b1 p = getBoardState h2 b2 p"
proof -
  have "cellView h1 p (board b1 ! r ! c) = cellView h2 p (board b2 ! r ! c)"
    if "r < ROWS" "c < COLS" for r c
    using assms that by (simp add: same_public_boards_def list_all_iff same_public_cellView)
  then show ?thesis
    by (simp add: getBoardState_cellView)
qed

text \<open>
  C8: \<open>getBoardState(forPlayer)\<close> is a 9-row grid whose cell (r, c) is the projection
  \<open>cellView\<close> of the board's cell: empty for an empty cell, the full identity for a unit
  owned by \<open>forPlayer\<close> or revealed, and otherwise a placeholder carrying only owner and
  alive. Two positions that agree on occupancy, owner, alive and revealed of every cell,
  and on the kind of every unit that is owned by \<open>forPlayer\<close> or revealed, have the same
  projection: the kinds of unrevealed opposing units do not show.
\<close>

theorem projection_hides_unrevealed_opponents:
  "(r < ROWS \<and> c < COLS \<longrightarrow> getBoardState h b p ! r ! c = cellView h p (board b ! r ! c))
   \<and> length (getBoardState h b p) = ROWS
   \<and> (same_public_boards p h b h' b' \<longrightarrow> getBoardState h b p = getBoardState h' b' p)"
  using getBoardState_nth[of r c h b p] same_public_boards_projection[of p h b h' b']
  by (auto simp: getBoardState_cellView)

theorem projection_hides_unrevealed_opponents_witness:
  "(4::nat) < ROWS \<and> (3::nat) < COLS
   \<and> getBoardState (fst (skirmish 29 13)) (snd (skirmish 29 13)) 1 ! 4 ! 3
       = cellView (fst (skirmish 29 13)) 1 (board (snd (skirmish 29 13)) ! 4 ! 3)
   \<and> type (obj (fst (skirmish 29 13)) 13) \<noteq> type (obj (fst (skirmish 29 0)) 0)
   \<and> same_public_boards 1 (fst (skirmish 29 13)) (snd (skirmish 29 13))
        (fst (skirmish 29 0)) (snd (skirmish 29 0))
   \<and> getBoardState (fst (skirmish 29 13)) (snd (skirmish 29 13)) 1
       = getBoardState (fst (skirmish 29 0)) (snd (skirmish 29 0)) 1"
proof -
  have dims: "(4::nat) < ROWS \<and> (3::nat) < COLS"
    by (simp add: ROWS_def COLS_def)
  have kinds: "type (obj (fst (skirmish 29 13)) 13) \<noteq> type (obj (fst (skirmish 29 0)) 0)"
    by code_simp
  have same: "same_public_boards 1 (fst (skirmish 29 13)) (snd (skirmish 29 13))
        (fst (skirmish 29 0)) (snd (skirmish 29 0))"
    by code_simp
  from dims kinds same
    projection_hides_unrevealed_opponents
      [of 4 3 "fst (skirmish 29 13)" "snd (skirmish 29 13)" 1 "fst (skirmish 29 0)" "snd (skirmish 29 0)"]
  show ?thesis
    by blast
qed

subsection \<open>The heuristic agent\<close>











subsection \<open>Playouts\<close>

lemma in_units_on: "a \<in> set (units_on g) \<longleftrightarrow> (\<exists>row \<in> set g. Some a \<in> set row)"
  by (auto simp: units_on_def split: option.splits)

lemma within_set_cell:
  assumes "within U g" "case v of None \<Rightarrow> True | Some a \<Rightarrow> a \<in> U"
  shows "within U (set_cell g pos v)"
proof (cases "nat (row pos) < length g")
  case False
  then show ?thesis
    using assms(1) by (simp add: set_cell_def list_update_beyond not_less)
next
  case True
  define r where "r = nat (row pos)"
  define x where "x = (g ! r)[nat (col pos) := v]"
  have eq: "set_cell g pos v = g[r := x]"
    by (simp add: set_cell_def r_def x_def)
  have old: "g ! r \<in> set g"
    using True by (simp add: r_def)
  have rows: "set (g[r := x]) \<subseteq> insert x (set g)"
    by (rule set_update_subset_insert)
  have cells: "set x \<subseteq> insert v (set (g ! r))"
    unfolding x_def by (rule set_update_subset_insert)
  have len: "length x = length (g ! r)"
    by (simp add: x_def)
  have "grid_ok (g[r := x])"
    using assms(1) rows old len
    by (auto simp: within_def grid_ok_def list_all_iff)
  moreover have "set (units_on (g[r := x])) \<subseteq> U"
  proof
    fix a assume "a \<in> set (units_on (g[r := x]))"
    then obtain rw where rw: "rw \<in> set (g[r := x])" "Some a \<in> set rw"
      by (auto simp: in_units_on)
    show "a \<in> U"
    proof (cases "rw = x")
      case True
      with rw cells have "Some a = v \<or> Some a \<in> set (g ! r)"
        by auto
      then have "Some a = v \<or> a \<in> set (units_on g)"
        using old by (auto simp: in_units_on)
      then show ?thesis
        using assms by (auto simp: within_def split: option.splits)
    next
      case False
      with rw rows have "rw \<in> set g"
        by auto
      with rw have "a \<in> set (units_on g)"
        by (auto simp: in_units_on)
      with assms(1) show ?thesis
        by (auto simp: within_def)
    qed
  qed
  ultimately show ?thesis
    by (simp add: within_def eq)
qed

lemma within_set_cell_None: "within U g \<Longrightarrow> within U (set_cell g pos None)"
  by (rule within_set_cell) simp_all

lemma within_set_cell_Some: "within U g \<Longrightarrow> a \<in> U \<Longrightarrow> within U (set_cell g pos (Some a))"
  by (rule within_set_cell) simp_all

lemma getCharacter_on_grid:
  assumes "getCharacter b pos = Some a" "grid_ok (board b)"
  shows "a \<in> set (units_on (board b))"
proof -
  from assms(1) have valid: "isValidPosition pos" and cell: "board b ! nat (row pos) ! nat (col pos) = Some a"
    by (auto simp: getCharacter_def split: if_splits)
  from valid assms(2) have r: "nat (row pos) < length (board b)"
    by (simp add: isValidPosition_def grid_ok_def nat_less_iff)
  then have rowin: "board b ! nat (row pos) \<in> set (board b)"
    by simp
  with assms(2) have "length (board b ! nat (row pos)) = COLS"
    by (simp add: grid_ok_def list_all_iff)
  with valid have "nat (col pos) < length (board b ! nat (row pos))"
    by (simp add: isValidPosition_def nat_less_iff)
  then have "board b ! nat (row pos) ! nat (col pos) \<in> set (board b ! nat (row pos))"
    by simp
  with cell rowin show ?thesis
    by (auto simp: in_units_on)
qed

lemma kill_playerId: "playerId (obj (kill h a) x) = playerId (obj h x)"
  by (simp add: obj_kill)

lemma reveal_playerId: "playerId (obj (reveal h a) x) = playerId (obj h x)"
  by (simp add: obj_reveal)

lemma resolveBattle_playerId: "playerId (obj (fst (resolveBattle h a d)) x) = playerId (obj h x)"
  by (simp add: fst_resolveBattle obj_reveal)

lemma battleEffect_playerId:
  assumes "proto (fromPos m) = PositionClass"
  shows "playerId (obj (fst (battleEffect h b m a t)) x) = playerId (obj h x)"
  by (simp add: battleEffect_eq[OF assms] Let_def kill_playerId reveal_playerId
      resolveBattle_playerId)

lemma battleEffect_within:
  assumes "proto (fromPos m) = PositionClass" "within U (board b)" "a \<in> U"
  shows "within U (board (snd (battleEffect h b m a t)))"
  using assms(2,3)
  by (simp add: battleEffect_eq[OF assms(1)] Let_def within_set_cell_None within_set_cell_Some)

lemma battleEffect_winner:
  assumes "proto (fromPos m) = PositionClass"
  shows "winner (snd (battleEffect h b m a t)) = winner b
   \<or> winner (snd (battleEffect h b m a t)) = Some (playerId (obj h a))"
  by (simp add: battleEffect_eq[OF assms] Let_def kill_playerId reveal_playerId
      resolveBattle_playerId)

lemma owners_ok_within:
  "owners_ok h b \<longleftrightarrow>
     within {a. owner_ok h a} (board b)
     \<and> (winner b = None \<or> winner b = Some 0 \<or> winner b = Some 1)"
  by (auto simp: owners_ok_def within_def list_all_iff)

lemma battleEffect_owners_ok:
  assumes inst: "proto (fromPos m) = PositionClass"
    and ok: "owners_ok h b" and a: "getCharacter b (fromPos m) = Some a"
  shows "owners_ok (fst (battleEffect h b m a t)) (snd (battleEffect h b m a t))"
proof -
  from ok have grid: "grid_ok (board b)" and w: "within {x. owner_ok h x} (board b)"
    by (simp_all add: owners_ok_within within_def)
  from getCharacter_on_grid[OF a grid] w have aok: "owner_ok h a"
    by (auto simp: within_def)
  have same: "{x. owner_ok (fst (battleEffect h b m a t)) x} = {x. owner_ok h x}"
    by (simp add: owner_ok_def battleEffect_playerId[OF inst])
  from battleEffect_within[OF inst w, of a h t] aok
  have "within {x. owner_ok h x} (board (snd (battleEffect h b m a t)))"
    by simp
  moreover from battleEffect_winner[OF inst, of h b a t] ok aok
  have "winner (snd (battleEffect h b m a t)) = None
        \<or> winner (snd (battleEffect h b m a t)) = Some 0
        \<or> winner (snd (battleEffect h b m a t)) = Some 1"
    by (auto simp: owners_ok_def owner_ok_def)
  ultimately show ?thesis
    by (simp add: owners_ok_within same)
qed

lemma moveEffect_owners_ok:
  assumes inst: "proto (fromPos m) = PositionClass"
    and ok: "owners_ok h b" and a: "getCharacter b (fromPos m) = Some a"
  shows "owners_ok (fst (moveEffect h b m a)) (snd (moveEffect h b m a))"
proof (cases "getCharacter b (toPos m)")
  case None
  from ok have grid: "grid_ok (board b)" and w: "within {x. owner_ok h x} (board b)"
    by (simp_all add: owners_ok_within within_def)
  from getCharacter_on_grid[OF a grid] w have aok: "a \<in> {x. owner_ok h x}"
    by (auto simp: within_def)
  have "within {x. owner_ok h x} (set_cell (set_cell (board b) (toPos m) (Some a)) (fromPos m) None)"
    by (intro within_set_cell_None within_set_cell_Some w aok)
  with ok None show ?thesis
    by (simp add: moveEffect_def owners_ok_within)
next
  case (Some t)
  with battleEffect_owners_ok[OF inst ok a, of t] show ?thesis
    by (simp add: moveEffect_def)
qed

lemma applied_owners_ok:
  assumes "owners_ok h b"
  shows "owners_ok (fst (snd (applied h b m))) (snd (snd (applied h b m)))"
proof (cases "accepted h b m")
  case False
  with assms show ?thesis
    by (simp add: applied_rejected)
next
  case True
  then have inst: "proto (fromPos m) = PositionClass"
    by (simp add: accepted_def)
  from accepted_Some[OF True] obtain a where a: "getCharacter b (fromPos m) = Some a"
    by blast
  from moveEffect_owners_ok[OF inst assms a]
  have "owners_ok (fst (moveEffect h b m a))
          ((snd (moveEffect h b m a))\<lparr>currentPlayer := 1 - currentPlayer (snd (moveEffect h b m a))\<rparr>)"
    by (simp add: owners_ok_def)
  with True a show ?thesis
    by (simp add: applied_eq)
qed

lemma alloc_obj: "obj (fst (alloc h c)) x = (if x = next_free h then c else obj h x)"
  by (simp add: alloc_def obj_def)

lemma alloc_all_owner_ok:
  assumes "\<forall>c \<in> set cs. playerId c = 0 \<or> playerId c = 1" "owner_ok h x"
  shows "owner_ok (fst (alloc_all h cs)) x"
  using assms
proof (induction cs arbitrary: h)
  case Nil
  then show ?case by simp
next
  case (Cons c cs)
  from Cons.prems have "owner_ok (fst (alloc h c)) x"
    by (simp add: owner_ok_def alloc_obj)
  with Cons.prems have "owner_ok (fst (alloc_all (fst (alloc h c)) cs)) x"
    by (intro Cons.IH) simp_all
  then show ?case
    by (simp add: case_prod_beta)
qed

lemma createFullTeam_owner_ok:
  assumes "pid = 0 \<or> pid = 1" "owner_ok h x"
  shows "owner_ok (fst (createFullTeam h pid)) x"
  unfolding createFullTeam_def
  using assms by (intro alloc_all_owner_ok) (auto simp: Character_new_def)

lemma GameBoard_new_owner_ok:
  assumes "owner_ok h x"
  shows "owner_ok (fst (GameBoard_new h)) x"
proof -
  have "owner_ok (fst (createFullTeam (fst (createFullTeam h 0)) 1)) x"
    by (intro createFullTeam_owner_ok assms) simp_all
  then show ?thesis
    by (simp add: GameBoard_new_def case_prod_beta)
qed

lemma clone_fields:
  "board (snd (clone h b)) = board b \<and> winner (snd (clone h b)) = winner b
   \<and> gameOver (snd (clone h b)) = gameOver b \<and> currentPlayer (snd (clone h b)) = currentPlayer b
   \<and> fst (clone h b) = fst (GameBoard_new h)"
  by (simp add: clone_def case_prod_beta)

lemma clone_owners_ok:
  assumes "owners_ok h b"
  shows "owners_ok (fst (clone h b)) (snd (clone h b))"
  using assms GameBoard_new_owner_ok[of h]
  by (auto simp: owners_ok_def clone_fields list_all_iff)

lemma clone_board: "snd (clone h b) = b"
  by (cases b) (simp add: clone_def case_prod_beta GameBoard_new_def split: option.splits)

lemma alloc_all_old:
  "x < next_free h \<Longrightarrow> obj (fst (alloc_all h cs)) x = obj h x \<and> next_free h \<le> next_free (fst (alloc_all h cs))"
proof (induction cs arbitrary: h)
  case Nil
  then show ?case by simp
next
  case (Cons c cs)
  have nf: "next_free (fst (alloc h c)) = Suc (next_free h)"
    by (simp add: alloc_def)
  with Cons.prems have "x < next_free (fst (alloc h c))"
    by simp
  from Cons.IH[OF this] Cons.prems nf show ?case
    by (simp add: case_prod_beta alloc_obj)
qed

lemma clone_store:
  assumes "x < next_free h"
  shows "obj (fst (clone h b)) x = obj h x"
proof -
  from alloc_all_old[OF assms]
  have 1: "obj (fst (createFullTeam h 0)) x = obj h x" and 2: "x < next_free (fst (createFullTeam h 0))"
    using assms by (simp_all add: createFullTeam_def order.strict_trans2)
  from alloc_all_old[OF 2] 1
  have "obj (fst (createFullTeam (fst (createFullTeam h 0)) 1)) x = obj h x"
    by (simp add: createFullTeam_def)
  then show ?thesis
    by (simp add: clone_fields GameBoard_new_def case_prod_beta)
qed

lemma getAllValidMoves_accepted:
  assumes "pm \<in> set (getAllValidMoves h b (currentPlayer b))"
  shows "accepted h b (snd pm)"
proof -
  from assms obtain pos where pos: "pos \<in> set all_positions"
    and m: "snd pm \<in> set (getValidMoves h b pos)"
    by (auto simp: getAllValidMoves_def split: option.splits if_splits)
  from pos have inst: "proto pos = PositionClass"
    by (auto simp: all_positions_def Position_new_def)
  from getValidMoves_shape[OF m] have origin: "fromPos (snd pm) = pos"
    by simp
  with m have "listed h b (snd pm)"
    by (auto simp: listed_def)
  with origin inst show ?thesis
    by (simp add: accepted_def)
qed

lemma randomChoice_member:
  "xs \<noteq> [] \<Longrightarrow> \<exists>x \<in> set xs. randomChoice rnd k xs = (Some x, Suc k)"
  by (simp add: randomChoice_def js_index_def)

lemma selectSimulationMove_member:
  assumes "allMoves \<noteq> []"
  shows "\<exists>m k1. selectSimulationMove h b allMoves rnd k = (Some m, k1) \<and> m \<in> snd ` set allMoves"
proof (cases "find (\<lambda>(pos, move). isFlagTarget h b move) allMoves")
  case None
  with assms randomChoice_member[of "map snd allMoves" rnd k] show ?thesis
    by (auto simp: selectSimulationMove_def)
next
  case (Some pm)
  then have "pm \<in> set allMoves"
    by (auto simp: find_Some_iff intro: nth_mem)
  with Some show ?thesis
    by (cases pm) (force simp: selectSimulationMove_def)
qed

lemma simulate_loop_stop:
  "isGameOver sb \<or> \<not> moves < maxMoves \<Longrightarrow>
     simulate_loop h sb rnd k moves maxMoves = Inr (h, sb, k, moves)"
  by (subst simulate_loop.simps) auto

lemma simulate_loop_stuck:
  "getAllValidMoves h sb (currentPlayer sb) = [] \<Longrightarrow>
     simulate_loop h sb rnd k moves maxMoves = Inr (h, sb, k, moves)"
  by (subst simulate_loop.simps) simp

lemma simulate_loop_step:
  assumes "\<not> isGameOver sb" "moves < maxMoves"
    and "getAllValidMoves h sb (currentPlayer sb) \<noteq> []"
    and "playout_step h sb rnd k = (Some m, k1)"
    and "makeMove h sb m = Inr (ok, h1, sb1)"
  shows "simulate_loop h sb rnd k moves maxMoves = simulate_loop h1 sb1 rnd k1 (moves + 1) maxMoves"
  using assms
  by (subst simulate_loop.simps) (simp add: playout_step_def Let_def)

lemma simulate_loop_play:
  assumes "owners_ok h sb" "moves \<le> maxMoves"
  shows "\<exists>ms fh fb k2.
           simulate_loop h sb rnd k moves maxMoves = Inr (fh, fb, k2, moves + length ms)
           \<and> legal_play h sb ms = Some (fh, fb)
           \<and> owners_ok fh fb
           \<and> moves + length ms \<le> maxMoves
           \<and> (gameOver fb \<or> moves + length ms = maxMoves
               \<or> getAllValidMoves fh fb (currentPlayer fb) = [])"
  using assms
proof (induction d \<equiv> "maxMoves - moves" arbitrary: h sb k moves)
  case 0
  then have "simulate_loop h sb rnd k moves maxMoves = Inr (h, sb, k, moves + length ([] :: Move list))"
    and "moves = maxMoves"
    by (simp_all add: simulate_loop_stop)
  with "0.prems" have
    "simulate_loop h sb rnd k moves maxMoves = Inr (h, sb, k, moves + length ([] :: Move list))
     \<and> legal_play h sb [] = Some (h, sb) \<and> owners_ok h sb
     \<and> moves + length ([] :: Move list) \<le> maxMoves
     \<and> (gameOver sb \<or> moves + length ([] :: Move list) = maxMoves
         \<or> getAllValidMoves h sb (currentPlayer sb) = [])"
    by simp
  then show ?case
    by blast
next
  case (Suc d)
  then have lt: "moves < maxMoves"
    by simp
  show ?case
  proof (cases "isGameOver sb \<or> getAllValidMoves h sb (currentPlayer sb) = []")
    case True
    then have "simulate_loop h sb rnd k moves maxMoves = Inr (h, sb, k, moves + length ([] :: Move list))"
      by (auto simp: simulate_loop_stop simulate_loop_stuck)
    with True Suc.prems have
      "simulate_loop h sb rnd k moves maxMoves = Inr (h, sb, k, moves + length ([] :: Move list))
       \<and> legal_play h sb [] = Some (h, sb) \<and> owners_ok h sb
       \<and> moves + length ([] :: Move list) \<le> maxMoves
       \<and> (gameOver sb \<or> moves + length ([] :: Move list) = maxMoves
           \<or> getAllValidMoves h sb (currentPlayer sb) = [])"
      by (auto simp: isGameOver_def)
    then show ?thesis
      by blast
  next
    case False
    then have going: "\<not> isGameOver sb" and nonempty: "getAllValidMoves h sb (currentPlayer sb) \<noteq> []"
      by simp_all
    from selectSimulationMove_member[OF nonempty, of h sb rnd k]
    obtain m k1 where sel: "playout_step h sb rnd k = (Some m, k1)"
      and mem: "m \<in> snd ` set (getAllValidMoves h sb (currentPlayer sb))"
      by (auto simp: playout_step_def)
    from mem have acc: "accepted h sb m"
      by (auto dest: getAllValidMoves_accepted)
    define h1 where "h1 = fst (snd (applied h sb m))"
    define sb1 where "sb1 = snd (snd (applied h sb m))"
    from acc have "fst (applied h sb m)"
      by (simp add: applied_accepted)
    then have ap: "applied h sb m = (True, h1, sb1)"
      by (simp add: h1_def sb1_def prod_eq_iff)
    with accepted_makeMove[OF acc] have mk: "makeMove h sb m = Inr (True, h1, sb1)"
      by simp
    have ok1: "owners_ok h1 sb1"
      unfolding h1_def sb1_def using Suc.prems(1) by (rule applied_owners_ok)
    have d: "d = maxMoves - (moves + 1)"
      using Suc.hyps(2) by simp
    have le: "moves + 1 \<le> maxMoves"
      using lt by simp
    from Suc.hyps(1)[OF d ok1 le, of k1]
    obtain ms fh fb k2 where
      run: "simulate_loop h1 sb1 rnd k1 (moves + 1) maxMoves = Inr (fh, fb, k2, moves + 1 + length ms)"
      and play: "legal_play h1 sb1 ms = Some (fh, fb)"
      and rest: "owners_ok fh fb" "moves + 1 + length ms \<le> maxMoves"
        "gameOver fb \<or> moves + 1 + length ms = maxMoves
         \<or> getAllValidMoves fh fb (currentPlayer fb) = []"
      by blast
    from run have "simulate_loop h sb rnd k moves maxMoves = Inr (fh, fb, k2, moves + length (m # ms))"
      by (simp add: simulate_loop_step[OF going lt nonempty sel mk])
    moreover from play going mem mk have "legal_play h sb (m # ms) = Some (fh, fb)"
      by (simp add: isGameOver_def)
    moreover from rest have "owners_ok fh fb" "moves + length (m # ms) \<le> maxMoves"
      "gameOver fb \<or> moves + length (m # ms) = maxMoves
       \<or> getAllValidMoves fh fb (currentPlayer fb) = []"
      by simp_all
    ultimately show ?thesis
      by blast
  qed
qed

text \<open>
  C9: \<open>simulate_loop\<close> is a total function, so every playout returns. On a 9 x 7 board
  whose units have owner 0 or 1, \<open>simulate\<close> with cap \<open>maxMoves\<close> (100 at its only call)
  returns without throwing, and its result is that of a legal play \<open>ms\<close> from the given
  board, on a store that agrees with the given one on every unit allocated before the
  call: at most \<open>maxMoves\<close> moves, each played while the game was not over by the side to
  move and accepted by \<open>makeMove\<close>. The playout stops only when the game is over, the cap
  is reached or the side to move has no legal move; it returns the winner when the game
  is over, and \<open>-1\<close> exactly when the game is not over and the cap was reached or no legal
  move remained.
\<close>

theorem playout_capped:
  assumes "owners_ok h b"
  shows "\<exists>ms fh fb k2 r.
           simulate h b rnd k maxMoves = Inr (fh, r, k2)
           \<and> legal_play (fst (clone h b)) b ms = Some (fh, fb)
           \<and> (\<forall>x < next_free h. obj (fst (clone h b)) x = obj h x)
           \<and> length ms \<le> maxMoves
           \<and> (gameOver fb \<or> length ms = maxMoves
                \<or> getAllValidMoves fh fb (currentPlayer fb) = [])
           \<and> (gameOver fb \<longrightarrow> r = winner fb)
           \<and> (r = Some (-1) \<longleftrightarrow>
                \<not> gameOver fb
                \<and> (length ms = maxMoves \<or> getAllValidMoves fh fb (currentPlayer fb) = []))"
proof -
  from assms have "owners_ok (fst (clone h b)) (snd (clone h b))"
    by (rule clone_owners_ok)
  then have ok: "owners_ok (fst (clone h b)) b"
    by (simp add: clone_board)
  from simulate_loop_play[OF ok, of 0 maxMoves rnd k]
  obtain ms fh fb k2 where
    run: "simulate_loop (fst (clone h b)) b rnd k 0 maxMoves = Inr (fh, fb, k2, length ms)"
    and play: "legal_play (fst (clone h b)) b ms = Some (fh, fb)"
    and fin: "owners_ok fh fb" "length ms \<le> maxMoves"
      "gameOver fb \<or> length ms = maxMoves \<or> getAllValidMoves fh fb (currentPlayer fb) = []"
    by auto
  define r where "r = (if gameOver fb then winner fb else Some (-1))"
  from run have "simulate h b rnd k maxMoves = Inr (fh, r, k2)"
    using clone_board[of h b]
    by (simp add: simulate_def case_prod_beta isGameOver_def getWinner_def r_def)
  moreover have "\<forall>x < next_free h. obj (fst (clone h b)) x = obj h x"
    by (simp add: clone_store)
  moreover have "gameOver fb \<longrightarrow> r = winner fb"
    by (simp add: r_def)
  moreover from fin(1) have "winner fb \<noteq> Some (-1)"
    by (auto simp: owners_ok_def)
  with fin(3) have "r = Some (-1) \<longleftrightarrow>
      \<not> gameOver fb \<and> (length ms = maxMoves \<or> getAllValidMoves fh fb (currentPlayer fb) = [])"
    by (auto simp: r_def)
  ultimately show ?thesis
    using play fin(2,3) by blast
qed

lemma legal_play_stuck:
  assumes "getAllValidMoves h b (currentPlayer b) = []" "legal_play h b ms = Some (fh, fb)"
  shows "ms = [] \<and> fh = h \<and> fb = b"
  using assms by (cases ms) auto

lemma raid_owners_ok: "owners_ok (fst raid) (snd raid)"
  by code_simp

lemma stalemate_owners_ok: "owners_ok (fst stalemate) (snd stalemate)"
  by code_simp

lemma standoff_owners_ok: "owners_ok (fst standoff) (snd standoff)"
  by code_simp

lemma stalemate_stuck:
  "\<not> gameOver (snd stalemate)
   \<and> getAllValidMoves (fst (clone (fst stalemate) (snd stalemate))) (snd stalemate)
        (currentPlayer (snd stalemate)) = []"
  by code_simp

lemma standoff_draw:
  "fst (snd (projr (simulate (fst standoff) (snd standoff) no_draws 0 1))) = Some (-1)"
  by code_simp

lemma standoff_not_stuck:
  "getAllValidMoves (fst (clone (fst standoff) (snd standoff))) (snd standoff)
        (currentPlayer (snd standoff)) \<noteq> []"
  by code_simp

lemma raid_win:
  "fst (snd (projr (simulate (fst raid) (snd raid) no_draws 0 100))) = Some 1"
  by code_simp

theorem playout_capped_witness:
  "owners_ok (fst stalemate) (snd stalemate)
   \<and> (\<exists>fh k2.
         simulate (fst stalemate) (snd stalemate) no_draws 0 100 = Inr (fh, Some (-1), k2)
         \<and> legal_play (fst (clone (fst stalemate) (snd stalemate))) (snd stalemate) []
             = Some (fh, snd stalemate)
         \<and> \<not> gameOver (snd stalemate)
         \<and> getAllValidMoves fh (snd stalemate) (currentPlayer (snd stalemate)) = [])
   \<and> owners_ok (fst standoff) (snd standoff)
   \<and> (\<exists>ms fh fb k2.
         simulate (fst standoff) (snd standoff) no_draws 0 1 = Inr (fh, Some (-1), k2)
         \<and> legal_play (fst (clone (fst standoff) (snd standoff))) (snd standoff) ms = Some (fh, fb)
         \<and> length ms = 1 \<and> \<not> gameOver fb)
   \<and> owners_ok (fst raid) (snd raid)
   \<and> (\<exists>ms fh fb k2.
         simulate (fst raid) (snd raid) no_draws 0 100 = Inr (fh, Some 1, k2)
         \<and> legal_play (fst (clone (fst raid) (snd raid))) (snd raid) ms = Some (fh, fb)
         \<and> length ms \<le> 100 \<and> gameOver fb \<and> winner fb = Some 1)"
proof -
  have first: "\<exists>fh k2.
         simulate (fst stalemate) (snd stalemate) no_draws 0 100 = Inr (fh, Some (-1), k2)
         \<and> legal_play (fst (clone (fst stalemate) (snd stalemate))) (snd stalemate) []
             = Some (fh, snd stalemate)
         \<and> \<not> gameOver (snd stalemate)
         \<and> getAllValidMoves fh (snd stalemate) (currentPlayer (snd stalemate)) = []"
  proof -
    from playout_capped [OF stalemate_owners_ok, of no_draws 0 100]
    obtain ms fh fb k2 r where
      run: "simulate (fst stalemate) (snd stalemate) no_draws 0 100 = Inr (fh, r, k2)"
      and play: "legal_play (fst (clone (fst stalemate) (snd stalemate))) (snd stalemate) ms = Some (fh, fb)"
      and draw: "r = Some (-1) \<longleftrightarrow>
                   \<not> gameOver fb
                   \<and> (length ms = 100 \<or> getAllValidMoves fh fb (currentPlayer fb) = [])"
      by blast
    from legal_play_stuck[OF conjunct2[OF stalemate_stuck] play]
    have eq: "ms = []" "fh = fst (clone (fst stalemate) (snd stalemate))" "fb = snd stalemate"
      by simp_all
    with draw stalemate_stuck have "r = Some (-1)"
      by simp
    with run play eq stalemate_stuck show ?thesis
      by auto
  qed
  have second: "\<exists>ms fh fb k2.
         simulate (fst standoff) (snd standoff) no_draws 0 1 = Inr (fh, Some (-1), k2)
         \<and> legal_play (fst (clone (fst standoff) (snd standoff))) (snd standoff) ms = Some (fh, fb)
         \<and> length ms = 1 \<and> \<not> gameOver fb"
  proof -
    from playout_capped [OF standoff_owners_ok, of no_draws 0 1]
    obtain ms fh fb k2 r where
      run: "simulate (fst standoff) (snd standoff) no_draws 0 1 = Inr (fh, r, k2)"
      and play: "legal_play (fst (clone (fst standoff) (snd standoff))) (snd standoff) ms = Some (fh, fb)"
      and le: "length ms \<le> 1"
      and draw: "r = Some (-1) \<longleftrightarrow>
                   \<not> gameOver fb
                   \<and> (length ms = 1 \<or> getAllValidMoves fh fb (currentPlayer fb) = [])"
      by blast
    from run standoff_draw have r: "r = Some (-1)"
      by simp
    with draw have going: "\<not> gameOver fb"
      and stop: "length ms = 1 \<or> getAllValidMoves fh fb (currentPlayer fb) = []"
      by simp_all
    have "length ms = 1"
    proof (cases ms)
      case Nil
      with play have "fh = fst (clone (fst standoff) (snd standoff))" "fb = snd standoff"
        by auto
      with stop standoff_not_stuck Nil show ?thesis
        by simp
    next
      case (Cons m ms')
      with le show ?thesis
        by simp
    qed
    with run r play going show ?thesis
      by blast
  qed
  have third: "\<exists>ms fh fb k2.
         simulate (fst raid) (snd raid) no_draws 0 100 = Inr (fh, Some 1, k2)
         \<and> legal_play (fst (clone (fst raid) (snd raid))) (snd raid) ms = Some (fh, fb)
         \<and> length ms \<le> 100 \<and> gameOver fb \<and> winner fb = Some 1"
  proof -
    from playout_capped [OF raid_owners_ok, of no_draws 0 100]
    obtain ms fh fb k2 r where
      run: "simulate (fst raid) (snd raid) no_draws 0 100 = Inr (fh, r, k2)"
      and play: "legal_play (fst (clone (fst raid) (snd raid))) (snd raid) ms = Some (fh, fb)"
      and le: "length ms \<le> 100"
      and stop: "gameOver fb \<or> length ms = 100 \<or> getAllValidMoves fh fb (currentPlayer fb) = []"
      and win: "gameOver fb \<longrightarrow> r = winner fb"
      and draw: "r = Some (-1) \<longleftrightarrow>
                   \<not> gameOver fb
                   \<and> (length ms = 100 \<or> getAllValidMoves fh fb (currentPlayer fb) = [])"
      by blast
    from run raid_win have r: "r = Some 1"
      by simp
    with draw stop have over: "gameOver fb"
      by auto
    with win r have "winner fb = Some 1"
      by simp
    with run r play le over show ?thesis
      by blast
  qed
  from first second third stalemate_owners_ok standoff_owners_ok raid_owners_ok show ?thesis
    by blast
qed

end
